theory Spec2Isabelle
  imports Main "HOL-Library.Word"
begin

section \<open>The connection broker of \<^verbatim>\<open>main.go\<close>\<close>

text \<open>
  One process running the binary is a record of the package-level variables of
  \<^verbatim>\<open>main.go\<close> (\<open>connections\<close>, \<open>rpcMutex\<close>, \<open>rpcBusyCount\<close>) together with the status of
  the goroutine whose code is being run and the history of the calls it has made to the
  outside world (sockets, the RPC link, the logger, the operating system).

  A source function is a function from process state to process state. Every primitive
  acts only while the goroutine is \<open>Running\<close>; a primitive that cannot go on (a locked
  mutex, \<^verbatim>\<open>os.Exit\<close>, a panic) records why in \<open>status\<close>, and everything after it is skipped,
  as in the source. What the outside world answers (the error of an RPC call, the bytes of
  a read) is an argument of the function. The statements of a function body are the
  elements of a \<open>block\<close>, in the order of the source.
\<close>

subsection \<open>Data\<close>

type_synonym byte = "8 word"
type_synonym uint64 = "64 word"

text \<open>
  Go error values. \<^verbatim>\<open>err == rpc.ErrShutdown\<close> compares identities, so an error with the same
  text made elsewhere is a different value (\<open>ErrOther\<close>).
\<close>

datatype error = ErrBadIndex | ErrShutdown | ErrOther string

fun Error :: "error \<Rightarrow> string" where
  "Error ErrBadIndex = ''incorrect connection index''"
| "Error ErrShutdown = ''connection is shut down''"
| "Error (ErrOther msg) = msg"

text \<open>A \<^verbatim>\<open>net.Conn\<close>: its identity and the text of \<^verbatim>\<open>conn.RemoteAddr().String()\<close>.\<close>

record conn =
  fd :: nat
  RemoteAddr :: string

record RPCFrontendPacket =
  Server :: string
  Index :: uint64
  Data :: "byte list"

record RPCPacket =
  Server :: string
  Index :: uint64
  Address :: string
  Data :: "byte list"

record serverInfo =
  rpcName :: string
  protocol :: string
  port :: int

datatype wait = OnLock | OnWait | OnRead | OnAccept | OnSelect

datatype status =
    Running
  | Returned
  | Exited int
  | Panicked
  | Blocked wait

datatype action =
    Lock | Unlock
  | Add | Done | Wait
  | Lookup string uint64
  | Insert string uint64 conn
  | Delete string uint64
  | Call string RPCPacket
  | CallShutdown
  | ClientClose
  | Read conn nat
  | Write conn "byte list"
  | Close conn
  | Register string
  | Listen string string int
  | Log string
  | Exit int
  | Go string
  | Extern string
  | GoFrontendListen serverInfo
  | GoHandleConnection serverInfo conn uint64

record process =
  connections :: "string \<rightharpoonup> (uint64 \<rightharpoonup> conn)"
  rpcMutex :: bool
  rpcBusyCount :: nat
  status :: status
  trace :: "action list"

definition start :: process where
  "start = \<lparr>connections = Map.empty, rpcMutex = False, rpcBusyCount = 0,
            status = Running, trace = []\<rparr>"

subsection \<open>Primitives\<close>

definition step :: "(process \<Rightarrow> process) \<Rightarrow> process \<Rightarrow> process" where
  "step f s = (if status s = Running then f s else s)"

definition emit :: "action \<Rightarrow> process \<Rightarrow> process" where
  "emit a s = s\<lparr>trace := trace s @ [a]\<rparr>"

definition stop :: "status \<Rightarrow> process \<Rightarrow> process" where
  "stop st s = s\<lparr>status := st\<rparr>"

text \<open>\<^verbatim>\<open>rpcMutex.Lock()\<close> waits while the mutex is held.\<close>

definition rpcMutex_Lock :: "process \<Rightarrow> process" where
  "rpcMutex_Lock =
     step (\<lambda>s. if rpcMutex s then stop (Blocked OnLock) s
               else emit Lock (s\<lparr>rpcMutex := True\<rparr>))"

text \<open>\<^verbatim>\<open>rpcMutex.Unlock()\<close>; unlocking an unlocked mutex is a fatal runtime error.\<close>

definition rpcMutex_Unlock :: "process \<Rightarrow> process" where
  "rpcMutex_Unlock =
     step (\<lambda>s. if rpcMutex s then emit Unlock (s\<lparr>rpcMutex := False\<rparr>)
               else stop (Exited 2) s)"

text \<open>\<^verbatim>\<open>rpcBusyCount.Add(1)\<close>, \<^verbatim>\<open>.Done()\<close> (a negative counter panics) and \<^verbatim>\<open>.Wait()\<close>.\<close>

definition rpcBusyCount_Add :: "process \<Rightarrow> process" where
  "rpcBusyCount_Add = step (\<lambda>s. emit Add (s\<lparr>rpcBusyCount := Suc (rpcBusyCount s)\<rparr>))"

definition rpcBusyCount_Done :: "process \<Rightarrow> process" where
  "rpcBusyCount_Done =
     step (\<lambda>s. case rpcBusyCount s of
                 0 \<Rightarrow> stop Panicked s
               | Suc n \<Rightarrow> emit Done (s\<lparr>rpcBusyCount := n\<rparr>))"

definition rpcBusyCount_Wait :: "process \<Rightarrow> process" where
  "rpcBusyCount_Wait =
     step (\<lambda>s. if rpcBusyCount s = 0 then emit Wait s else stop (Blocked OnWait) s)"

text \<open>
  The nested map \<^verbatim>\<open>map[string]map[uint64]net.Conn\<close>. Reading a missing outer key gives a
  nil inner map; reading a nil map misses, deleting from it does nothing, and assigning
  into it panics.
\<close>

definition lookup :: "string \<Rightarrow> uint64 \<Rightarrow> process \<Rightarrow> conn option" where
  "lookup tag i s = (case connections s tag of None \<Rightarrow> None | Some m \<Rightarrow> m i)"

definition connections_lookup :: "string \<Rightarrow> uint64 \<Rightarrow> process \<Rightarrow> process" where
  "connections_lookup tag i = step (emit (Lookup tag i))"

definition connections_insert :: "string \<Rightarrow> uint64 \<Rightarrow> conn \<Rightarrow> process \<Rightarrow> process" where
  "connections_insert tag i c =
     step (\<lambda>s. case connections s tag of
                 None \<Rightarrow> stop Panicked s
               | Some m \<Rightarrow>
                   emit (Insert tag i c) (s\<lparr>connections := (connections s)(tag \<mapsto> m(i \<mapsto> c))\<rparr>))"

definition connections_delete :: "string \<Rightarrow> uint64 \<Rightarrow> process \<Rightarrow> process" where
  "connections_delete tag i =
     step (\<lambda>s. case connections s tag of
                 None \<Rightarrow> emit (Delete tag i) s
               | Some m \<Rightarrow>
                   emit (Delete tag i) (s\<lparr>connections := (connections s)(tag \<mapsto> m(i := None))\<rparr>))"

definition connections_make :: "string \<Rightarrow> process \<Rightarrow> process" where
  "connections_make tag = step (\<lambda>s. s\<lparr>connections := (connections s)(tag \<mapsto> Map.empty)\<rparr>)"

definition conn_Write :: "conn \<Rightarrow> byte list \<Rightarrow> process \<Rightarrow> process" where
  "conn_Write c bs = step (emit (Write c bs))"

definition conn_Close :: "conn \<Rightarrow> process \<Rightarrow> process" where
  "conn_Close c = step (emit (Close c))"

definition logging :: "string \<Rightarrow> process \<Rightarrow> process" where
  "logging msg = step (emit (Log msg))"

text \<open>A sequence of statements.\<close>

fun block :: "(process \<Rightarrow> process) list \<Rightarrow> process \<Rightarrow> process" where
  "block [] s = s"
| "block (f # fs) s = block fs (f s)"

definition os_Exit :: "int \<Rightarrow> process \<Rightarrow> process" where
  "os_Exit code = step (block [emit (Exit code), stop (Exited code)])"

text \<open>Starting a goroutine, or calling a module that is not part of the broker.\<close>

definition effect :: "action \<Rightarrow> process \<Rightarrow> process" where
  "effect a = step (emit a)"

text \<open>
  \<^verbatim>\<open>return\<close>, and a \<^verbatim>\<open>defer\<close>red call: it runs when the function returns or panics, not
  when the process exits or the goroutine never gets that far.
\<close>

definition return :: "process \<Rightarrow> process" where
  "return = step (stop Returned)"

definition deferred :: "(process \<Rightarrow> process) \<Rightarrow> process \<Rightarrow> process" where
  "deferred f s =
     (if status s = Returned \<or> status s = Panicked
      then stop (status s) (f (stop Running s)) else s)"

subsection \<open>RPC served by the front to the back\<close>

text \<open>
  \<^verbatim>\<open>RPCFrontendPacket.SendPacket\<close> (lines 403 to 414); \<open>write_err\<close> is what \<^verbatim>\<open>conn.Write\<close>
  returns if it is reached. The first component is the error the call returns, once the
  status of the second is \<open>Returned\<close>; a call that waits for the mutex has returned nothing.
\<close>

definition SendPacket ::
  "RPCFrontendPacket \<Rightarrow> error option \<Rightarrow> process \<Rightarrow> error option \<times> process" where
  "SendPacket args write_err s =
     (let s = block [rpcMutex_Lock,
                     connections_lookup (RPCFrontendPacket.Server args)
                       (RPCFrontendPacket.Index args)] s
      in case lookup (RPCFrontendPacket.Server args) (RPCFrontendPacket.Index args) s of
           None \<Rightarrow> (Some ErrBadIndex, block [return, deferred rpcMutex_Unlock] s)
         | Some c \<Rightarrow>
             (write_err,
              block [conn_Write c (RPCFrontendPacket.Data args),
                     return, deferred rpcMutex_Unlock] s))"

text \<open>
  \<^verbatim>\<open>RPCFrontendPacket.CloseConnection\<close> (lines 417 to 428); \<open>close_err\<close> is what
  \<^verbatim>\<open>conn.Close\<close> returns if it is reached.
\<close>

definition CloseConnection ::
  "RPCFrontendPacket \<Rightarrow> error option \<Rightarrow> process \<Rightarrow> error option \<times> process" where
  "CloseConnection args close_err s =
     (let s = block [rpcMutex_Lock,
                     connections_lookup (RPCFrontendPacket.Server args)
                       (RPCFrontendPacket.Index args)] s
      in case lookup (RPCFrontendPacket.Server args) (RPCFrontendPacket.Index args) s of
           None \<Rightarrow> (Some ErrBadIndex, block [return, deferred rpcMutex_Unlock] s)
         | Some c \<Rightarrow>
             (close_err,
              block [connections_delete (RPCFrontendPacket.Server args)
                       (RPCFrontendPacket.Index args),
                     conn_Close c,
                     return, deferred rpcMutex_Unlock] s))"

subsection \<open>The relay goroutine\<close>

text \<open>
  While a relay goroutine waits (for the mutex, in an RPC call, in \<^verbatim>\<open>conn.Read\<close>) the front
  goes on serving the back's calls, each in a goroutine of its own (\<^verbatim>\<open>go rpc.ServeConn\<close>)
  and each under the mutex from its first statement to its last. \<open>serve\<close> runs the calls
  that arrive during one such wait; what a call returns goes to the back.
\<close>

datatype inbound =
    CallSendPacket RPCFrontendPacket "error option"
  | CallCloseConnection RPCFrontendPacket "error option"

fun serve1 :: "inbound \<Rightarrow> process \<Rightarrow> process" where
  "serve1 (CallSendPacket args write_err) =
     step (\<lambda>s. stop Running (snd (SendPacket args write_err s)))"
| "serve1 (CallCloseConnection args close_err) =
     step (\<lambda>s. stop Running (snd (CloseConnection args close_err s)))"

definition serve :: "inbound list \<Rightarrow> process \<Rightarrow> process" where
  "serve ics = fold serve1 ics"

text \<open>
  \<^verbatim>\<open>rpcClient.Call(method, packet, nil)\<close>: the call is issued, and the goroutine waits for
  the reply. The reply itself is an argument of the caller. The handle \<^verbatim>\<open>rpcClient\<close> is not
  part of the state: the mutex is held from line 202 on and released only by
  \<^verbatim>\<open>waitForBackend\<close>, after it has stored a handle (lines 291 and 292), so a goroutine that
  has had the mutex finds one.
\<close>

definition rpcClient_Call :: "string \<Rightarrow> RPCPacket \<Rightarrow> inbound list \<Rightarrow> process \<Rightarrow> process" where
  "rpcClient_Call method packet served = block [step (emit (Call method packet)), serve served]"

text \<open>
  One turn of the read loop, as the outside world decides it: the calls served while the
  goroutine waits in \<^verbatim>\<open>conn.Read\<close>, the bytes the client has sent, the error of the read,
  and (used only if a packet is forwarded) the calls served during \<^verbatim>\<open>HandlePacket\<close> and
  its reply.
\<close>

record round =
  served_read :: "inbound list"
  incoming :: "byte list"
  read_err :: "error option"
  served_call :: "inbound list"
  reply :: "error option"

text \<open>
  \<^verbatim>\<open>n, err := conn.Read(buffer)\<close> copies at most \<^verbatim>\<open>len(buffer)\<close> bytes into the buffer and
  returns how many.
\<close>

definition Read_result :: "byte list \<Rightarrow> round \<Rightarrow> nat \<times> byte list \<times> error option" where
  "Read_result buffer rd =
     (let n = min (length (incoming rd)) (length buffer)
      in (n, take n (incoming rd) @ drop n buffer, read_err rd))"

definition conn_Read :: "conn \<Rightarrow> byte list \<Rightarrow> round \<Rightarrow> process \<Rightarrow> process" where
  "conn_Read c buffer rd =
     block [serve (served_read rd), step (emit (Read c (fst (Read_result buffer rd))))]"

text \<open>
  The \<^verbatim>\<open>for\<close> loop of \<^verbatim>\<open>handleConnection\<close> (lines 354 to 381). It ends by \<^verbatim>\<open>break\<close> (the
  goroutine is still \<open>Running\<close>), by \<^verbatim>\<open>os.Exit(1)\<close>, or it is still waiting in
  \<^verbatim>\<open>conn.Read\<close> when the client has nothing more to say.
\<close>

fun relay :: "serverInfo \<Rightarrow> conn \<Rightarrow> uint64 \<Rightarrow> round list \<Rightarrow> process \<Rightarrow> process" where
  "relay server c index [] s = step (stop (Blocked OnRead)) s"
| "relay server c index (rd # rds) s =
     (let buffer = replicate 1024 (0 :: byte);
          s = conn_Read c buffer rd s;
          (n, buffer, err) = Read_result buffer rd
      in if err \<noteq> None then s
         else if n = 0 then relay server c index rds s
         else
           let s = block
                 [rpcMutex_Lock,
                  rpcBusyCount_Add,
                  rpcMutex_Unlock,
                  rpcClient_Call ''RPCPacket.HandlePacket''
                    \<lparr>RPCPacket.Server = rpcName server, Index = index,
                     Address = RemoteAddr c, Data = take n buffer\<rparr>
                    (served_call rd),
                  rpcBusyCount_Done] s;
               err = reply rd
           in if err \<noteq> None then
                block [logging ''Failed to forward packet to backend:'',
                       if err = Some ErrShutdown then os_Exit 1 else id] s
              else relay server c index rds s)"

text \<open>What the outside world decides during the life of one relay goroutine.\<close>

record env =
  served_start :: "inbound list"
  served_new :: "inbound list"
  reply_new :: "error option"
  rounds :: "round list"
  served_close :: "inbound list"
  reply_close :: "error option"

text \<open>\<^verbatim>\<open>handleConnection\<close> (lines 333 to 398).\<close>

definition handleConnection :: "serverInfo \<Rightarrow> conn \<Rightarrow> uint64 \<Rightarrow> env \<Rightarrow> process \<Rightarrow> process" where
  "handleConnection server c index e =
     block
       [serve (served_start e),
        rpcMutex_Lock,
        rpcBusyCount_Add,
        connections_insert (rpcName server) index c,
        rpcMutex_Unlock,
        rpcClient_Call ''RPCPacket.NewConnection''
          \<lparr>RPCPacket.Server = rpcName server, Index = index,
           Address = RemoteAddr c, Data = []\<rparr> (served_new e),
        rpcBusyCount_Done,
        if reply_new e \<noteq> None then
          block
            [logging ''Failed to forward new connection to backend:'',
             rpcMutex_Lock,
             connections_delete (rpcName server) index,
             rpcMutex_Unlock,
             return]
        else
          block
            [relay server c index (rounds e),
             rpcMutex_Lock,
             rpcBusyCount_Add,
             connections_delete (rpcName server) index,
             rpcMutex_Unlock,
             rpcClient_Call ''RPCPacket.CloseConnection''
               \<lparr>RPCPacket.Server = rpcName server, Index = index,
                Address = RemoteAddr c, Data = []\<rparr> (served_close e),
             rpcBusyCount_Done,
             if reply_close e \<noteq> None then
               block
                 [logging ''Failed to forward close connection to backend:'',
                  if reply_close e = Some ErrShutdown then os_Exit 1 else id]
             else id,
             return],
        deferred (conn_Close c)]"

subsection \<open>Listeners\<close>

text \<open>
  One turn of the accept loop: the calls served while the listener waits in
  \<^verbatim>\<open>l.Accept()\<close>, then either an error or a connection with the result of
  \<^verbatim>\<open>SetKeepAlive\<close>.
\<close>

datatype accepted =
    AcceptError "inbound list"
  | Accepted "inbound list" conn "error option"

text \<open>
  The \<^verbatim>\<open>for\<close> loop of \<^verbatim>\<open>frontendListen\<close> (lines 312 to 329); \<open>count\<close> is the goroutine's
  local \<^verbatim>\<open>uint64\<close>.
\<close>

fun accept_loop :: "serverInfo \<Rightarrow> uint64 \<Rightarrow> accepted list \<Rightarrow> process \<Rightarrow> process" where
  "accept_loop server count [] s = step (stop (Blocked OnAccept)) s"
| "accept_loop server count (AcceptError served # rest) s =
     accept_loop server count rest
       (block [serve served, logging ''Failed to accept connection on''] s)"
| "accept_loop server count (Accepted served c keepalive_err # rest) s =
     (let s = serve served s;
          s = (if protocol server = ''tcp'' \<and> keepalive_err \<noteq> None
               then logging ''Unable to set keepalive'' s else s);
          count = count + 1
      in accept_loop server count rest (effect (GoHandleConnection server c count) s))"

text \<open>
  \<^verbatim>\<open>frontendListen\<close> (lines 299 to 330); \<open>GameSpyAddress\<close> is the configured bind address and
  \<open>listen_err\<close> what \<^verbatim>\<open>net.Listen\<close> returns.
\<close>

definition frontendListen ::
  "string \<Rightarrow> serverInfo \<Rightarrow> error option \<Rightarrow> accepted list \<Rightarrow> process \<Rightarrow> process" where
  "frontendListen GameSpyAddress server listen_err accepts =
     block
       [effect (Listen (protocol server) GameSpyAddress (port server)),
        if listen_err \<noteq> None then
          block [logging ''Failed to listen on'', return]
        else
          block [logging ''Listening on'', accept_loop server 0 accepts]]"

text \<open>\<^verbatim>\<open>startFrontendServer\<close> (lines 229 to 252).\<close>

definition startFrontendServer :: "error option \<Rightarrow> process \<Rightarrow> process" where
  "startFrontendServer listen_err =
     block
       [effect (Register ''RPCFrontendPacket''),
        effect (Listen ''tcp'' ''localhost'' 29998),
        if listen_err \<noteq> None then block [logging ''Failed to listen on'', os_Exit 1] else id,
        logging ''Listening on'',
        effect (Go ''rpc.ServeConn accept loop''),
        return]"

text \<open>
  \<^verbatim>\<open>backendMain\<close> (lines 56 to 101); the protocol modules are outside the broker and
  appear as the goroutines started for them.
\<close>

definition backendMain :: "bool \<Rightarrow> error option \<Rightarrow> error option \<Rightarrow> process \<Rightarrow> process" where
  "backendMain reload output_err listen_err =
     block
       [case output_err of None \<Rightarrow> id | Some err \<Rightarrow> logging (Error err),
        effect (Register ''RPCPacket''),
        effect (Listen ''tcp'' ''localhost'' 29999),
        if listen_err \<noteq> None then block [logging ''Failed to listen on'', os_Exit 1] else id,
        effect (Extern ''common.ConnectFrontend''),
        block (map (\<lambda>name. effect (Go name))
          [''nas.StartServer'', ''gpcm.StartServer'', ''qr2.StartServer'',
           ''gpsp.StartServer'', ''serverbrowser.StartServer'', ''sake.StartServer'',
           ''natneg.StartServer'', ''api.StartServer'', ''gamestats.StartServer'']),
        effect (Extern ''wg.Wait''),
        effect (Go ''rpc.ServeConn accept loop''),
        logging ''Listening on'',
        step (stop (Blocked OnSelect))]"

text \<open>
  \<^verbatim>\<open>frontendMain\<close> (lines 191 to 226). A function called from another returns to its
  caller, which goes on.
\<close>

definition call :: "(process \<Rightarrow> process) \<Rightarrow> process \<Rightarrow> process" where
  "call f = step (block [f, \<lambda>s. if status s = Returned then stop Running s else s])"

definition servers :: "serverInfo list" where
  "servers =
     [\<lparr>rpcName = ''serverbrowser'', protocol = ''tcp'', port = 28910\<rparr>,
      \<lparr>rpcName = ''gpcm'', protocol = ''tcp'', port = 29900\<rparr>,
      \<lparr>rpcName = ''gpsp'', protocol = ''tcp'', port = 29901\<rparr>,
      \<lparr>rpcName = ''gamestats'', protocol = ''tcp'', port = 29920\<rparr>]"

definition frontendMain :: "bool \<Rightarrow> error option \<Rightarrow> error option \<Rightarrow> process \<Rightarrow> process" where
  "frontendMain skipBackend output_err listen_err =
     block
       [case output_err of None \<Rightarrow> id | Some err \<Rightarrow> logging (Error err),
        rpcMutex_Lock,
        call (startFrontendServer listen_err),
        if \<not> skipBackend then effect (Go ''startBackendProcess'')
        else effect (Go ''waitForBackend''),
        block (map (\<lambda>server. block [connections_make (rpcName server),
                                     effect (GoFrontendListen server)]) servers),
        step (stop (Blocked OnSelect))]"

subsection \<open>Shutting the back down\<close>

text \<open>\<^verbatim>\<open>strings.Contains\<close>.\<close>

fun Contains :: "string \<Rightarrow> string \<Rightarrow> bool" where
  "Contains [] substr = (substr = [])"
| "Contains (c # s) substr = (take (length substr) (c # s) = substr \<or> Contains s substr)"

text \<open>
  \<^verbatim>\<open>RPCFrontendPacket.ShutdownBackend\<close> (lines 441 to 460); \<open>shutdown_reply\<close> is what the
  \<^verbatim>\<open>Shutdown\<close> call returns and \<open>close_err\<close> what \<^verbatim>\<open>rpcClient.Close()\<close> returns.
\<close>

definition ShutdownBackend ::
  "error option \<Rightarrow> error option \<Rightarrow> process \<Rightarrow> error option \<times> process" where
  "ShutdownBackend shutdown_reply close_err s =
     (None,
      block
        [rpcMutex_Lock,
         rpcBusyCount_Wait,
         effect CallShutdown,
         case shutdown_reply of
           None \<Rightarrow> id
         | Some err \<Rightarrow>
             if \<not> Contains (Error err)
                   ''An existing connection was forcibly closed by the remote host.''
             then logging ''Failed to reload backend:'' else id,
         effect ClientClose,
         if close_err \<noteq> None then logging ''Failed to close RPC client:'' else id,
         effect (Go ''waitForBackend''),
         return] s)"

subsection \<open>Reading the history\<close>

text \<open>The packets of the calls of one method that a history holds, in the order of the calls.\<close>

fun calls :: "string \<Rightarrow> action list \<Rightarrow> RPCPacket list" where
  "calls m [] = []"
| "calls m (Call m' p # tr) = (if m' = m then p # calls m tr else calls m tr)"
| "calls m (_ # tr) = calls m tr"

text \<open>
  The indices of the relay goroutines that a history started, in order, and the number of
  connections among the turns of an accept loop.
\<close>

fun assigned :: "action list \<Rightarrow> uint64 list" where
  "assigned [] = []"
| "assigned (GoHandleConnection server c i # tr) = i # assigned tr"
| "assigned (_ # tr) = assigned tr"

fun connected :: "accepted list \<Rightarrow> nat" where
  "connected [] = 0"
| "connected (AcceptError served # rest) = connected rest"
| "connected (Accepted served c keepalive_err # rest) = Suc (connected rest)"

text \<open>
  The entries of the table that hold a given socket; whether a call of the back asks to
  close a given entry; and the calls the front serves between the moment a relay
  goroutine has put its entry into the table and the end of its read loop.
\<close>

definition holders :: "conn \<Rightarrow> process \<Rightarrow> (string \<times> uint64) set" where
  "holders c s = {(tag, i). lookup tag i s = Some c}"

fun closes_entry :: "string \<Rightarrow> uint64 \<Rightarrow> inbound \<Rightarrow> bool" where
  "closes_entry tag i (CallSendPacket args write_err) = False"
| "closes_entry tag i (CallCloseConnection args close_err) =
     (RPCFrontendPacket.Server args = tag \<and> RPCFrontendPacket.Index args = i)"

definition served_while_open :: "env \<Rightarrow> inbound list" where
  "served_while_open e =
     served_new e @ concat (map (\<lambda>rd. served_read rd @ served_call rd) (rounds e))"

text \<open>
  The outer keys of the table are among the four tags of \<open>servers\<close>: the front adds no
  outer key after \<^verbatim>\<open>frontendMain\<close> has made the four inner maps.
\<close>

definition known_tags :: "process \<Rightarrow> bool" where
  "known_tags s = (dom (connections s) \<subseteq> set (map rpcName servers))"

subsection \<open>States and inputs used in examples\<close>

text \<open>A server, two sockets, and a front whose table holds one connection.\<close>

definition gpcm :: serverInfo where
  "gpcm = \<lparr>rpcName = ''gpcm'', protocol = ''tcp'', port = 29900\<rparr>"

definition client1 :: conn where
  "client1 = \<lparr>fd = 7, RemoteAddr = ''203.0.113.5:40000''\<rparr>"

definition client2 :: conn where
  "client2 = \<lparr>fd = 8, RemoteAddr = ''198.51.100.9:40001''\<rparr>"

definition one_client :: process where
  "one_client = start\<lparr>connections := [''gpcm'' \<mapsto> [1 \<mapsto> client1]]\<rparr>"

text \<open>
  A front with its four inner maps and the mutex free, and what the outside world may
  decide for a relay goroutine: nothing special (\<open>quiet\<close>), a read that ends the stream,
  a read of five bytes, and a read that fails because the back has had the socket closed
  meanwhile.
\<close>

definition listening :: process where
  "listening = start\<lparr>connections :=
     [''serverbrowser'' \<mapsto> Map.empty, ''gpsp'' \<mapsto> Map.empty,
      ''gamestats'' \<mapsto> Map.empty, ''gpcm'' \<mapsto> Map.empty]\<rparr>"

definition quiet :: env where
  "quiet = \<lparr>served_start = [], served_new = [], reply_new = None, rounds = [],
            served_close = [], reply_close = None\<rparr>"

definition eof :: round where
  "eof = \<lparr>served_read = [], incoming = [], read_err = Some (ErrOther ''EOF''),
          served_call = [], reply = None\<rparr>"

definition hello :: round where
  "hello = \<lparr>served_read = [], incoming = [1, 2, 3, 4, 5], read_err = None,
            served_call = [], reply = None\<rparr>"

definition closed_by_back :: round where
  "closed_by_back =
     \<lparr>served_read =
        [CallCloseConnection \<lparr>RPCFrontendPacket.Server = ''gpcm'', Index = 1, Data = []\<rparr> None],
      incoming = [], read_err = Some (ErrOther ''use of closed network connection''),
      served_call = [], reply = None\<rparr>"

section \<open>Properties\<close>

subsection \<open>The primitives and the calls served to the back\<close>

lemmas prim_defs =
  step_def emit_def stop_def rpcMutex_Lock_def rpcMutex_Unlock_def rpcBusyCount_Add_def
  rpcBusyCount_Done_def rpcBusyCount_Wait_def connections_lookup_def connections_insert_def
  connections_delete_def connections_make_def conn_Write_def conn_Close_def logging_def
  os_Exit_def effect_def return_def deferred_def

lemma SendPacket_run:
  assumes "status s = Running" and "\<not> rpcMutex s"
  shows "SendPacket args w s =
     (case lookup (RPCFrontendPacket.Server args) (RPCFrontendPacket.Index args) s of
        None \<Rightarrow>
          (Some ErrBadIndex,
           s\<lparr>status := Returned,
             trace := trace s @
               [Lock, Lookup (RPCFrontendPacket.Server args) (RPCFrontendPacket.Index args),
                Unlock]\<rparr>)
      | Some c \<Rightarrow>
          (w,
           s\<lparr>status := Returned,
             trace := trace s @
               [Lock, Lookup (RPCFrontendPacket.Server args) (RPCFrontendPacket.Index args),
                Write c (RPCFrontendPacket.Data args), Unlock]\<rparr>))"
  using assms
  by (simp add: SendPacket_def lookup_def prim_defs Let_def split: option.splits)

lemma CloseConnection_run:
  assumes "status s = Running" and "\<not> rpcMutex s"
  shows "CloseConnection args w s =
     (case lookup (RPCFrontendPacket.Server args) (RPCFrontendPacket.Index args) s of
        None \<Rightarrow>
          (Some ErrBadIndex,
           s\<lparr>status := Returned,
             trace := trace s @
               [Lock, Lookup (RPCFrontendPacket.Server args) (RPCFrontendPacket.Index args),
                Unlock]\<rparr>)
      | Some c \<Rightarrow>
          (w,
           s\<lparr>status := Returned,
             connections := (connections s)(RPCFrontendPacket.Server args \<mapsto>
                (the (connections s (RPCFrontendPacket.Server args)))
                  (RPCFrontendPacket.Index args := None)),
             trace := trace s @
               [Lock, Lookup (RPCFrontendPacket.Server args) (RPCFrontendPacket.Index args),
                Delete (RPCFrontendPacket.Server args) (RPCFrontendPacket.Index args),
                Close c, Unlock]\<rparr>))"
  using assms
  by (simp add: CloseConnection_def lookup_def prim_defs Let_def split: option.splits)

lemma SendPacket_locked:
  assumes "status s = Running" and "rpcMutex s"
  shows "snd (SendPacket args w s) = s\<lparr>status := Blocked OnLock\<rparr>"
  using assms
  by (simp add: SendPacket_def lookup_def prim_defs Let_def split: option.splits)

lemma CloseConnection_locked:
  assumes "status s = Running" and "rpcMutex s"
  shows "snd (CloseConnection args w s) = s\<lparr>status := Blocked OnLock\<rparr>"
  using assms
  by (simp add: CloseConnection_def lookup_def prim_defs Let_def split: option.splits)

lemma serve1_halted: "status s \<noteq> Running \<Longrightarrow> serve1 ic s = s"
  by (cases ic) (simp_all add: step_def)

lemma serve1_locked: "rpcMutex s \<Longrightarrow> serve1 ic s = s"
  by (cases ic; cases "status s = Running")
     (simp_all add: step_def stop_def SendPacket_locked CloseConnection_locked)

lemma serve1_status [simp]: "status (serve1 ic s) = status s"
  by (cases ic) (simp_all add: step_def stop_def)

lemma serve1_rpcMutex [simp]: "rpcMutex (serve1 ic s) = rpcMutex s"
proof (cases "status s = Running \<and> \<not> rpcMutex s")
  case True
  then show ?thesis
    by (cases ic)
       (simp_all add: step_def stop_def SendPacket_run CloseConnection_run split: option.splits)
next
  case False
  then show ?thesis
    using serve1_halted serve1_locked by metis
qed

lemma serve1_rpcBusyCount [simp]: "rpcBusyCount (serve1 ic s) = rpcBusyCount s"
proof (cases "status s = Running \<and> \<not> rpcMutex s")
  case True
  then show ?thesis
    by (cases ic)
       (simp_all add: step_def stop_def SendPacket_run CloseConnection_run split: option.splits)
next
  case False
  then show ?thesis
    using serve1_halted serve1_locked by metis
qed

lemma serve1_dom [simp]: "dom (connections (serve1 ic s)) = dom (connections s)"
proof (cases "status s = Running \<and> \<not> rpcMutex s")
  case True
  then show ?thesis
    by (cases ic)
       (auto simp add: step_def stop_def SendPacket_run CloseConnection_run lookup_def
          split: option.splits)
next
  case False
  then show ?thesis
    using serve1_halted serve1_locked by metis
qed

lemma serve_status [simp]: "status (serve ics s) = status s"
  unfolding serve_def by (induction ics arbitrary: s) simp_all

lemma serve_rpcMutex [simp]: "rpcMutex (serve ics s) = rpcMutex s"
  unfolding serve_def by (induction ics arbitrary: s) simp_all

lemma serve_rpcBusyCount [simp]: "rpcBusyCount (serve ics s) = rpcBusyCount s"
  unfolding serve_def by (induction ics arbitrary: s) simp_all

lemma serve_dom [simp]: "dom (connections (serve ics s)) = dom (connections s)"
  unfolding serve_def by (induction ics arbitrary: s) simp_all

lemma serve_halted: "status s \<noteq> Running \<Longrightarrow> serve ics s = s"
  unfolding serve_def by (induction ics arbitrary: s) (simp_all add: serve1_halted)

lemma make_all_dom:
  "dom (connections (block (map (\<lambda>server. block [connections_make (rpcName server),
                                     effect (GoFrontendListen server)]) xs) s)) =
     (if status s = Running then dom (connections s) \<union> set (map rpcName xs)
      else dom (connections s))"
  by (induction xs arbitrary: s) (auto simp add: connections_make_def effect_def step_def emit_def)

lemma startFrontendServer_connections:
  "connections (call (startFrontendServer le) s) = connections s"
  by (simp add: call_def startFrontendServer_def prim_defs)

lemma frontendMain_dom:
  "dom (connections (frontendMain skip oe le start)) \<subseteq> set (map rpcName servers)"
proof -
  define p where
    "p = block
           [case oe of None \<Rightarrow> id | Some err \<Rightarrow> logging (Error err),
            rpcMutex_Lock,
            call (startFrontendServer le),
            if \<not> skip then effect (Go ''startBackendProcess'')
            else effect (Go ''waitForBackend'')] start"
  have "connections (block [case oe of None \<Rightarrow> id | Some err \<Rightarrow> logging (Error err),
           rpcMutex_Lock] start) = Map.empty"
    by (cases oe) (simp_all add: start_def prim_defs)
  then have p: "connections p = Map.empty"
    by (simp add: p_def startFrontendServer_connections effect_def step_def emit_def)
  have "frontendMain skip oe le start =
          step (stop (Blocked OnSelect))
            (block (map (\<lambda>server. block [connections_make (rpcName server),
                                     effect (GoFrontendListen server)]) servers) p)"
    by (simp add: frontendMain_def p_def)
  then show ?thesis
    by (simp add: make_all_dom p step_def stop_def del: set_map)
qed

lemma frontendMain_tables:
  "dom (connections (frontendMain skip oe None start)) = set (map rpcName servers)"
proof -
  define p where
    "p = block
           [case oe of None \<Rightarrow> id | Some err \<Rightarrow> logging (Error err),
            rpcMutex_Lock,
            call (startFrontendServer None),
            if \<not> skip then effect (Go ''startBackendProcess'')
            else effect (Go ''waitForBackend'')] start"
  have "connections (block [case oe of None \<Rightarrow> id | Some err \<Rightarrow> logging (Error err),
           rpcMutex_Lock] start) = Map.empty"
    by (cases oe) (simp_all add: start_def prim_defs)
  then have p: "connections p = Map.empty"
    by (simp add: p_def startFrontendServer_connections effect_def step_def emit_def)
  have r: "status p = Running"
    by (cases oe) (simp_all add: p_def start_def call_def startFrontendServer_def prim_defs)
  have "frontendMain skip oe None start =
          step (stop (Blocked OnSelect))
            (block (map (\<lambda>server. block [connections_make (rpcName server),
                                     effect (GoFrontendListen server)]) servers) p)"
    by (simp add: frontendMain_def p_def)
  then show ?thesis
    by (simp add: make_all_dom p r step_def stop_def del: set_map)
qed

subsection \<open>The read loop\<close>

lemma calls_append [simp]: "calls m (xs @ ys) = calls m xs @ calls m ys"
  by (induction m xs rule: calls.induct) simp_all

lemma serve1_calls [simp]: "calls m (trace (serve1 ic s)) = calls m (trace s)"
proof (cases "status s = Running \<and> \<not> rpcMutex s")
  case True
  then show ?thesis
    by (cases ic)
       (simp_all add: step_def stop_def SendPacket_run CloseConnection_run split: option.splits)
next
  case False
  then show ?thesis
    using serve1_halted serve1_locked by metis
qed

lemma serve_calls [simp]: "calls m (trace (serve ics s)) = calls m (trace s)"
  unfolding serve_def by (induction ics arbitrary: s) simp_all

lemma forward_status:
  "status (rpcBusyCount_Done (rpcClient_Call m p sc
            (rpcMutex_Unlock (rpcBusyCount_Add (rpcMutex_Lock s))))) =
     (if status s = Running \<and> rpcMutex s then Blocked OnLock else status s)"
  by (simp add: rpcClient_Call_def prim_defs)

lemma forward_rpcMutex:
  "rpcMutex (rpcBusyCount_Done (rpcClient_Call m p sc
            (rpcMutex_Unlock (rpcBusyCount_Add (rpcMutex_Lock s))))) = rpcMutex s"
  by (simp add: rpcClient_Call_def prim_defs)

lemma forward_rpcBusyCount:
  "rpcBusyCount (rpcBusyCount_Done (rpcClient_Call m p sc
            (rpcMutex_Unlock (rpcBusyCount_Add (rpcMutex_Lock s))))) = rpcBusyCount s"
  by (simp add: rpcClient_Call_def prim_defs)

lemma forward_dom:
  "dom (connections (rpcBusyCount_Done (rpcClient_Call m p sc
            (rpcMutex_Unlock (rpcBusyCount_Add (rpcMutex_Lock s)))))) = dom (connections s)"
  by (simp add: rpcClient_Call_def prim_defs)

lemma forward_calls:
  "calls m' (trace (rpcBusyCount_Done (rpcClient_Call m p sc
            (rpcMutex_Unlock (rpcBusyCount_Add (rpcMutex_Lock s)))))) =
     calls m' (trace s) @
       (if status s = Running \<and> \<not> rpcMutex s \<and> m = m' then [p] else [])"
  by (simp add: rpcClient_Call_def prim_defs)

lemma conn_Read_status [simp]: "status (conn_Read c buffer rd s) = status s"
  by (simp add: conn_Read_def step_def emit_def)

lemma conn_Read_rpcMutex [simp]: "rpcMutex (conn_Read c buffer rd s) = rpcMutex s"
  by (simp add: conn_Read_def step_def emit_def)

lemma conn_Read_rpcBusyCount [simp]: "rpcBusyCount (conn_Read c buffer rd s) = rpcBusyCount s"
  by (simp add: conn_Read_def step_def emit_def)

lemma conn_Read_dom [simp]: "dom (connections (conn_Read c buffer rd s)) = dom (connections s)"
  by (simp add: conn_Read_def step_def emit_def)

lemma conn_Read_calls [simp]: "calls m (trace (conn_Read c buffer rd s)) = calls m (trace s)"
  by (simp add: conn_Read_def step_def emit_def)

lemmas forward_simps =
  forward_status forward_rpcMutex forward_rpcBusyCount forward_dom forward_calls

lemma relay_rpcMutex [simp]: "rpcMutex (relay server c index rds s) = rpcMutex s"
  by (induction rds arbitrary: s)
     (simp_all add: Let_def forward_simps logging_def os_Exit_def step_def stop_def emit_def
        split: prod.splits)

lemma relay_rpcBusyCount [simp]: "rpcBusyCount (relay server c index rds s) = rpcBusyCount s"
  by (induction rds arbitrary: s)
     (simp_all add: Let_def forward_simps logging_def os_Exit_def step_def stop_def emit_def
        split: prod.splits)

lemma relay_dom [simp]: "dom (connections (relay server c index rds s)) = dom (connections s)"
  by (induction rds arbitrary: s)
     (simp_all add: Let_def forward_simps logging_def os_Exit_def step_def stop_def emit_def
        split: prod.splits)

lemma forward_halted:
  "status s \<noteq> Running \<Longrightarrow>
     rpcBusyCount_Done (rpcClient_Call m p sc
       (rpcMutex_Unlock (rpcBusyCount_Add (rpcMutex_Lock s)))) = s"
  by (simp add: rpcClient_Call_def serve_halted prim_defs)

lemma conn_Read_halted: "status s \<noteq> Running \<Longrightarrow> conn_Read c buffer rd s = s"
  by (simp add: conn_Read_def serve_halted step_def)

lemma relay_halted: "status s \<noteq> Running \<Longrightarrow> relay server c index rds s = s"
  by (induction rds arbitrary: s)
     (simp_all add: Let_def forward_halted conn_Read_halted logging_def os_Exit_def step_def
        split: prod.splits)

lemma relay_status:
  "status s = Running \<Longrightarrow>
     status (relay server c index rds s) \<in> {Running, Exited 1, Blocked OnRead, Blocked OnLock}"
proof (induction rds arbitrary: s)
  case Nil
  then show ?case by (simp add: step_def stop_def)
next
  case (Cons rd rds)
  obtain n buffer err where rr: "Read_result (replicate 1024 0) rd = (n, buffer, err)"
    by (cases "Read_result (replicate 1024 0) rd") auto
  let ?s1 = "conn_Read c (replicate 1024 0) rd s"
  let ?s2 = "rpcBusyCount_Done (rpcClient_Call ''RPCPacket.HandlePacket''
               \<lparr>RPCPacket.Server = rpcName server, Index = index,
                Address = RemoteAddr c, Data = take n buffer\<rparr> (served_call rd)
               (rpcMutex_Unlock (rpcBusyCount_Add (rpcMutex_Lock ?s1))))"
  have s1: "status ?s1 = Running" using Cons.prems by simp
  have s2: "status ?s2 = Running \<or> status ?s2 = Blocked OnLock"
    using s1 by (simp add: forward_status)
  have rec: "status (relay server c index rds ?s2)
               \<in> {Running, Exited 1, Blocked OnRead, Blocked OnLock}"
    using s2 Cons.IH [of ?s2] relay_halted [of ?s2 server c index rds] by auto
  show ?case
    using rr s1 s2 rec Cons.IH [OF s1]
    by (auto simp add: Let_def logging_def os_Exit_def step_def stop_def emit_def)
qed

lemma relay_calls:
  "m \<noteq> ''RPCPacket.HandlePacket'' \<Longrightarrow>
     calls m (trace (relay server c index rds s)) = calls m (trace s)"
  by (induction rds arbitrary: s)
     (simp_all add: Let_def forward_simps logging_def os_Exit_def step_def stop_def emit_def
        split: prod.splits)

lemma calls_frame:
  "calls m (trace (rpcMutex_Lock s)) = calls m (trace s)"
  "calls m (trace (rpcMutex_Unlock s)) = calls m (trace s)"
  "calls m (trace (rpcBusyCount_Add s)) = calls m (trace s)"
  "calls m (trace (rpcBusyCount_Done s)) = calls m (trace s)"
  "calls m (trace (connections_insert tag i c s)) = calls m (trace s)"
  "calls m (trace (connections_delete tag i s)) = calls m (trace s)"
  "calls m (trace (logging msg s)) = calls m (trace s)"
  "calls m (trace (os_Exit code s)) = calls m (trace s)"
  "calls m (trace (return s)) = calls m (trace s)"
  "calls m (trace (deferred (conn_Close c) s)) = calls m (trace s)"
  by (simp_all add: prim_defs split: nat.splits option.splits)

lemma rpcClient_Call_calls:
  "calls m (trace (rpcClient_Call m' p sc s)) =
     calls m (trace s) @ (if status s = Running \<and> m' = m then [p] else [])"
  by (simp add: rpcClient_Call_def step_def emit_def)




subsection \<open>Worked runs of \<^verbatim>\<open>handleConnection\<close>\<close>

lemma relay_Cons:
  "relay server c index (rd # rds) s =
     (let s1 = conn_Read c (replicate 1024 0) rd s
      in if read_err rd \<noteq> None then s1
         else if incoming rd = [] then relay server c index rds s1
         else
           let s2 = rpcBusyCount_Done (rpcClient_Call ''RPCPacket.HandlePacket''
                      \<lparr>RPCPacket.Server = rpcName server, Index = index,
                       Address = RemoteAddr c, Data = take 1024 (incoming rd)\<rparr>
                      (served_call rd)
                      (rpcMutex_Unlock (rpcBusyCount_Add (rpcMutex_Lock s1))))
           in if reply rd \<noteq> None then
                (if reply rd = Some ErrShutdown then os_Exit 1 else id)
                  (logging ''Failed to forward packet to backend:'' s2)
              else relay server c index rds s2)"
  by (simp add: Let_def Read_result_def min_def)

lemma conn_Read_eval:
  "conn_Read c (replicate 1024 0) rd s =
     step (emit (Read c (min (length (incoming rd)) 1024))) (serve (served_read rd) s)"
  by (simp add: conn_Read_def Read_result_def Let_def)

lemmas run_simps =
  handleConnection_def relay_Cons conn_Read_eval rpcClient_Call_def serve_def prim_defs
  SendPacket_def CloseConnection_def lookup_def Let_def

lemma run_shutdown_at_open:
  "handleConnection gpcm client1 1 (quiet\<lparr>reply_new := Some ErrShutdown\<rparr>) listening =
     listening\<lparr>status := Returned,
       trace := [Lock, Add, Insert ''gpcm'' 1 client1, Unlock,
                 Call ''RPCPacket.NewConnection''
                   \<lparr>RPCPacket.Server = ''gpcm'', Index = 1,
                    Address = ''203.0.113.5:40000'', Data = []\<rparr>,
                 Done, Log ''Failed to forward new connection to backend:'',
                 Lock, Delete ''gpcm'' 1, Unlock, Close client1]\<rparr>"
  by (simp add: run_simps listening_def start_def quiet_def gpcm_def client1_def
      del: relay.simps)

lemma run_shutdown_at_forward:
  "handleConnection gpcm client1 1
     (quiet\<lparr>rounds := [hello\<lparr>reply := Some ErrShutdown\<rparr>]\<rparr>) listening =
     listening\<lparr>connections := (connections listening)(''gpcm'' \<mapsto> [1 \<mapsto> client1]),
       status := Exited 1,
       trace := [Lock, Add, Insert ''gpcm'' 1 client1, Unlock,
                 Call ''RPCPacket.NewConnection''
                   \<lparr>RPCPacket.Server = ''gpcm'', Index = 1,
                    Address = ''203.0.113.5:40000'', Data = []\<rparr>,
                 Done, Read client1 5, Lock, Add, Unlock,
                 Call ''RPCPacket.HandlePacket''
                   \<lparr>RPCPacket.Server = ''gpcm'', Index = 1,
                    Address = ''203.0.113.5:40000'', Data = [1, 2, 3, 4, 5]\<rparr>,
                 Done, Log ''Failed to forward packet to backend:'', Exit 1]\<rparr>"
  by (simp add: run_simps listening_def start_def quiet_def hello_def gpcm_def client1_def
      del: relay.simps)

lemma run_closed_by_back:
  "handleConnection gpcm client1 1 (quiet\<lparr>rounds := [closed_by_back]\<rparr>) listening =
     listening\<lparr>status := Returned,
       trace := [Lock, Add, Insert ''gpcm'' 1 client1, Unlock,
                 Call ''RPCPacket.NewConnection''
                   \<lparr>RPCPacket.Server = ''gpcm'', Index = 1,
                    Address = ''203.0.113.5:40000'', Data = []\<rparr>,
                 Done,
                 Lock, Lookup ''gpcm'' 1, Delete ''gpcm'' 1, Close client1, Unlock,
                 Read client1 0,
                 Lock, Add, Delete ''gpcm'' 1, Unlock,
                 Call ''RPCPacket.CloseConnection''
                   \<lparr>RPCPacket.Server = ''gpcm'', Index = 1,
                    Address = ''203.0.113.5:40000'', Data = []\<rparr>,
                 Done, Close client1]\<rparr>"
  by (simp add: run_simps listening_def start_def quiet_def closed_by_back_def gpcm_def
      client1_def del: relay.simps)

lemma run_hello:
  "handleConnection gpcm client1 1
     (quiet\<lparr>rounds := [hello\<lparr>incoming := []\<rparr>, hello, eof]\<rparr>) listening =
     listening\<lparr>status := Returned,
       trace := [Lock, Add, Insert ''gpcm'' 1 client1, Unlock,
                 Call ''RPCPacket.NewConnection''
                   \<lparr>RPCPacket.Server = ''gpcm'', Index = 1,
                    Address = ''203.0.113.5:40000'', Data = []\<rparr>,
                 Done, Read client1 0, Read client1 5, Lock, Add, Unlock,
                 Call ''RPCPacket.HandlePacket''
                   \<lparr>RPCPacket.Server = ''gpcm'', Index = 1,
                    Address = ''203.0.113.5:40000'', Data = [1, 2, 3, 4, 5]\<rparr>,
                 Done, Read client1 0,
                 Lock, Add, Delete ''gpcm'' 1, Unlock,
                 Call ''RPCPacket.CloseConnection''
                   \<lparr>RPCPacket.Server = ''gpcm'', Index = 1,
                    Address = ''203.0.113.5:40000'', Data = []\<rparr>,
                 Done, Close client1]\<rparr>"
  by (simp add: run_simps listening_def start_def quiet_def hello_def eof_def gpcm_def
      client1_def del: relay.simps)

subsection \<open>The three phases of \<^verbatim>\<open>handleConnection\<close>\<close>

lemma opening_status:
  "status (rpcBusyCount_Done (rpcClient_Call m p sc (rpcMutex_Unlock
             (connections_insert tag i c (rpcBusyCount_Add (rpcMutex_Lock s)))))) =
     (if status s = Running then
        (if rpcMutex s then Blocked OnLock
         else if connections s tag = None then Panicked else Running)
      else status s)"
  by (simp add: rpcClient_Call_def prim_defs split: option.splits)

lemma opening_rpcMutex:
  "status s = Running \<Longrightarrow> \<not> rpcMutex s \<Longrightarrow> connections s tag \<noteq> None \<Longrightarrow>
   \<not> rpcMutex (rpcBusyCount_Done (rpcClient_Call m p sc (rpcMutex_Unlock
             (connections_insert tag i c (rpcBusyCount_Add (rpcMutex_Lock s))))))"
  by (auto simp add: rpcClient_Call_def prim_defs split: option.splits)

lemma opening_calls:
  "m \<noteq> m' \<Longrightarrow>
   calls m' (trace (rpcBusyCount_Done (rpcClient_Call m p sc (rpcMutex_Unlock
             (connections_insert tag i c (rpcBusyCount_Add (rpcMutex_Lock s))))))) =
     calls m' (trace s)"
  by (simp add: calls_frame rpcClient_Call_calls)

lemma failing_status:
  "status (return (rpcMutex_Unlock (connections_delete tag i (rpcMutex_Lock (logging msg s))))) =
     (if status s = Running then (if rpcMutex s then Blocked OnLock else Returned)
      else status s)"
  by (simp add: prim_defs split: option.splits)

lemma failing_lookup:
  "status s = Running \<Longrightarrow> \<not> rpcMutex s \<Longrightarrow>
   lookup tag i (return (rpcMutex_Unlock (connections_delete tag i
                   (rpcMutex_Lock (logging msg s))))) = None"
  by (simp add: lookup_def prim_defs split: option.splits)

lemma closing_status:
  "status (rpcBusyCount_Done (rpcClient_Call m p sc (rpcMutex_Unlock
             (connections_delete tag i (rpcBusyCount_Add (rpcMutex_Lock s)))))) =
     (if status s = Running \<and> rpcMutex s then Blocked OnLock else status s)"
  by (simp add: rpcClient_Call_def prim_defs split: option.splits)

lemma closing_calls:
  "calls m' (trace (rpcBusyCount_Done (rpcClient_Call m p sc (rpcMutex_Unlock
             (connections_delete tag i (rpcBusyCount_Add (rpcMutex_Lock s))))))) =
     calls m' (trace s) @
       (if status s = Running \<and> \<not> rpcMutex s \<and> m = m' then [p] else [])"
  by (simp add: calls_frame rpcClient_Call_calls rpcMutex_Lock_def rpcMutex_Unlock_def
      rpcBusyCount_Add_def connections_delete_def step_def emit_def stop_def
      split: option.splits)

lemma deferred_Close_status [simp]: "status (deferred (conn_Close c) s) = status s"
  by (simp add: prim_defs)

lemma deferred_Close_lookup [simp]:
  "lookup tag i (deferred (conn_Close c) s) = lookup tag i s"
  by (simp add: lookup_def prim_defs)

lemma deferred_Close_last:
  "status s = Returned \<Longrightarrow> last (trace (deferred (conn_Close c) s)) = Close c"
  by (simp add: prim_defs)

lemma finishing_status:
  "status (return ((if rc \<noteq> None then
              block [logging msg, if rc = Some ErrShutdown then os_Exit 1 else id]
            else id) s)) =
     (if status s = Running then (if rc = Some ErrShutdown then Exited 1 else Returned)
      else status s)"
  by (simp add: prim_defs)

lemma finishing_calls:
  "calls m (trace (return ((if rc \<noteq> None then
              block [logging msg, if rc = Some ErrShutdown then os_Exit 1 else id]
            else id) s))) = calls m (trace s)"
  by (simp add: calls_frame)

subsection \<open>\<^verbatim>\<open>SendPacket\<close> and \<^verbatim>\<open>CloseConnection\<close> served by the front\<close>

text \<open>
  Claim C6. A call to the front-served \<^verbatim>\<open>SendPacket(tag, index, bytes)\<close> that gets the mutex
  returns \<open>ErrBadIndex\<close> if the table has no entry for the pair; if it has one, the bytes are
  written to that socket and the call returns exactly what the write returned. The lookup
  and the write lie between the \<open>Lock\<close> and the \<open>Unlock\<close> of the call.
\<close>

theorem SendPacket_spec:
  assumes "status s = Running" and "\<not> rpcMutex s"
  shows "SendPacket args write_err s =
     (case lookup (RPCFrontendPacket.Server args) (RPCFrontendPacket.Index args) s of
        None \<Rightarrow>
          (Some ErrBadIndex,
           s\<lparr>status := Returned,
             trace := trace s @
               [Lock, Lookup (RPCFrontendPacket.Server args) (RPCFrontendPacket.Index args),
                Unlock]\<rparr>)
      | Some c \<Rightarrow>
          (write_err,
           s\<lparr>status := Returned,
             trace := trace s @
               [Lock, Lookup (RPCFrontendPacket.Server args) (RPCFrontendPacket.Index args),
                Write c (RPCFrontendPacket.Data args), Unlock]\<rparr>))"
  using assms by (rule SendPacket_run)

text \<open>An entry that is hit with a failing write, and an index that is missed.\<close>

theorem SendPacket_spec_witness:
  "status one_client = Running \<and> \<not> rpcMutex one_client \<and>
   SendPacket \<lparr>RPCFrontendPacket.Server = ''gpcm'', Index = 1, Data = [111, 107]\<rparr>
     (Some (ErrOther ''broken pipe'')) one_client =
     (Some (ErrOther ''broken pipe''),
      one_client\<lparr>status := Returned,
        trace := [Lock, Lookup ''gpcm'' 1, Write client1 [111, 107], Unlock]\<rparr>) \<and>
   SendPacket \<lparr>RPCFrontendPacket.Server = ''gpcm'', Index = 2, Data = [111, 107]\<rparr>
     None one_client =
     (Some ErrBadIndex,
      one_client\<lparr>status := Returned, trace := [Lock, Lookup ''gpcm'' 2, Unlock]\<rparr>)"
  using SendPacket_spec [of one_client
      "\<lparr>RPCFrontendPacket.Server = ''gpcm'', Index = 1, Data = [111, 107]\<rparr>"
      "Some (ErrOther ''broken pipe'')"]
    SendPacket_spec [of one_client
      "\<lparr>RPCFrontendPacket.Server = ''gpcm'', Index = 2, Data = [111, 107]\<rparr>" None]
  by (simp add: one_client_def start_def lookup_def)

text \<open>
  Claim C7. A \<^verbatim>\<open>SendPacket\<close> for a pair that is not in the table returns \<open>ErrBadIndex\<close> and
  leaves the table, the mutex and the busy counter as they were; the call touches no
  socket: it does nothing but lock, look up and unlock.
\<close>

theorem SendPacket_absent:
  assumes "status s = Running" and "\<not> rpcMutex s"
    and "lookup (RPCFrontendPacket.Server args) (RPCFrontendPacket.Index args) s = None"
  shows "fst (SendPacket args write_err s) = Some ErrBadIndex \<and>
         status (snd (SendPacket args write_err s)) = Returned \<and>
         connections (snd (SendPacket args write_err s)) = connections s \<and>
         rpcMutex (snd (SendPacket args write_err s)) = rpcMutex s \<and>
         rpcBusyCount (snd (SendPacket args write_err s)) = rpcBusyCount s \<and>
         trace (snd (SendPacket args write_err s)) =
           trace s @ [Lock, Lookup (RPCFrontendPacket.Server args) (RPCFrontendPacket.Index args),
                      Unlock]"
  using assms by (simp add: SendPacket_run)

text \<open>The index 99999 of \<^verbatim>\<open>gamestats\<close>, never assigned.\<close>

theorem SendPacket_absent_witness:
  "status one_client = Running \<and> \<not> rpcMutex one_client \<and>
   lookup ''gamestats'' 99999 one_client = None \<and>
   fst (SendPacket \<lparr>RPCFrontendPacket.Server = ''gamestats'', Index = 99999, Data = [1]\<rparr>
          None one_client) = Some ErrBadIndex \<and>
   connections (snd (SendPacket
       \<lparr>RPCFrontendPacket.Server = ''gamestats'', Index = 99999, Data = [1]\<rparr>
       None one_client)) = connections one_client \<and>
   trace (snd (SendPacket
       \<lparr>RPCFrontendPacket.Server = ''gamestats'', Index = 99999, Data = [1]\<rparr>
       None one_client)) = [Lock, Lookup ''gamestats'' 99999, Unlock]"
  using SendPacket_absent [of one_client
      "\<lparr>RPCFrontendPacket.Server = ''gamestats'', Index = 99999, Data = [1]\<rparr>" None]
  by (simp add: one_client_def start_def lookup_def)

text \<open>
  Claim C10. For a tag outside the four whose inner maps \<^verbatim>\<open>frontendMain\<close> makes, the nested
  lookup of \<^verbatim>\<open>SendPacket\<close> and of \<^verbatim>\<open>CloseConnection\<close> misses without a panic: the call
  returns \<open>ErrBadIndex\<close> and changes nothing.
\<close>

theorem unknown_tag_ErrBadIndex:
  assumes "status s = Running" and "\<not> rpcMutex s" and "known_tags s"
    and "RPCFrontendPacket.Server args \<notin> set (map rpcName servers)"
  shows "SendPacket args write_err s =
           (Some ErrBadIndex,
            s\<lparr>status := Returned,
              trace := trace s @
                [Lock, Lookup (RPCFrontendPacket.Server args) (RPCFrontendPacket.Index args),
                 Unlock]\<rparr>) \<and>
         CloseConnection args close_err s =
           (Some ErrBadIndex,
            s\<lparr>status := Returned,
              trace := trace s @
                [Lock, Lookup (RPCFrontendPacket.Server args) (RPCFrontendPacket.Index args),
                 Unlock]\<rparr>)"
proof -
  from assms(3,4) have "connections s (RPCFrontendPacket.Server args) = None"
    unfolding known_tags_def by blast
  then have "lookup (RPCFrontendPacket.Server args) (RPCFrontendPacket.Index args) s = None"
    by (simp add: lookup_def)
  with assms(1,2) show ?thesis
    by (simp add: SendPacket_run CloseConnection_run)
qed

text \<open>A call for \<^verbatim>\<open>natneg\<close>, which is no broker-managed protocol.\<close>

theorem unknown_tag_ErrBadIndex_witness:
  "status one_client = Running \<and> \<not> rpcMutex one_client \<and> known_tags one_client \<and>
   ''natneg'' \<notin> set (map rpcName servers) \<and>
   SendPacket \<lparr>RPCFrontendPacket.Server = ''natneg'', Index = 1, Data = [0]\<rparr> None one_client =
     (Some ErrBadIndex,
      one_client\<lparr>status := Returned, trace := [Lock, Lookup ''natneg'' 1, Unlock]\<rparr>) \<and>
   CloseConnection \<lparr>RPCFrontendPacket.Server = ''natneg'', Index = 1, Data = [0]\<rparr> None
       one_client =
     (Some ErrBadIndex,
      one_client\<lparr>status := Returned, trace := [Lock, Lookup ''natneg'' 1, Unlock]\<rparr>)"
proof -
  have h: "status one_client = Running" "\<not> rpcMutex one_client" "known_tags one_client"
    "RPCFrontendPacket.Server \<lparr>RPCFrontendPacket.Server = ''natneg'', Index = 1, Data = [0]\<rparr>
       \<notin> set (map rpcName servers)"
    by (simp_all add: one_client_def start_def known_tags_def servers_def)
  show ?thesis
    using h unknown_tag_ErrBadIndex [OF h, of None None]
    by (simp add: one_client_def start_def)
qed

subsection \<open>\<^verbatim>\<open>ShutdownBackend\<close>\<close>

text \<open>
  Claim C4. A \<^verbatim>\<open>ShutdownBackend\<close> that gets the mutex keeps it and waits for the busy
  counter: while the counter is not zero it has done nothing but lock, and no \<^verbatim>\<open>Shutdown\<close>
  call has been issued. With the counter at zero it does, in this order: lock, wait, the
  \<^verbatim>\<open>Shutdown\<close> call (an error whose text has the "forcibly closed" sentence is swallowed,
  any other is logged), then the close of the RPC handle. It returns nil whatever the two
  calls answer, and the mutex is still held when it returns.
\<close>

theorem ShutdownBackend_spec:
  assumes "status s = Running" and "\<not> rpcMutex s"
  shows "ShutdownBackend shutdown_reply close_err s =
     (None,
      if rpcBusyCount s = 0 then
        s\<lparr>rpcMutex := True, status := Returned,
          trace := trace s @ [Lock, Wait, CallShutdown]
            @ (case shutdown_reply of
                 None \<Rightarrow> []
               | Some err \<Rightarrow>
                   if Contains (Error err)
                        ''An existing connection was forcibly closed by the remote host.''
                   then [] else [Log ''Failed to reload backend:''])
            @ [ClientClose]
            @ (if close_err = None then [] else [Log ''Failed to close RPC client:''])
            @ [Go ''waitForBackend'']\<rparr>
      else
        s\<lparr>rpcMutex := True, status := Blocked OnWait, trace := trace s @ [Lock]\<rparr>)"
proof (cases "rpcBusyCount s = 0")
  case True
  with assms show ?thesis
    by (simp add: ShutdownBackend_def prim_defs split: option.splits)
next
  case False
  with assms show ?thesis
    by (simp add: ShutdownBackend_def prim_defs split: option.splits)
qed

text \<open>
  The expected transport error is swallowed; another one is logged; and with two calls
  in flight the handler holds the mutex and waits.
\<close>

theorem ShutdownBackend_spec_witness:
  "status start = Running \<and> \<not> rpcMutex start \<and>
   ShutdownBackend
     (Some (ErrOther ''read tcp 127.0.0.1:50000->127.0.0.1:29999: wsarecv: An existing connection was forcibly closed by the remote host.''))
     None start =
     (None, start\<lparr>rpcMutex := True, status := Returned,
        trace := [Lock, Wait, CallShutdown, ClientClose, Go ''waitForBackend'']\<rparr>) \<and>
   ShutdownBackend (Some (ErrOther ''unexpected EOF'')) (Some ErrShutdown) start =
     (None, start\<lparr>rpcMutex := True, status := Returned,
        trace := [Lock, Wait, CallShutdown, Log ''Failed to reload backend:'', ClientClose,
                  Log ''Failed to close RPC client:'', Go ''waitForBackend'']\<rparr>) \<and>
   status (start\<lparr>rpcBusyCount := 2\<rparr>) = Running \<and> \<not> rpcMutex (start\<lparr>rpcBusyCount := 2\<rparr>) \<and>
   ShutdownBackend None None (start\<lparr>rpcBusyCount := 2\<rparr>) =
     (None, start\<lparr>rpcMutex := True, rpcBusyCount := 2, status := Blocked OnWait,
        trace := [Lock]\<rparr>)"
proof -
  have h: "status start = Running" "\<not> rpcMutex start"
    "status (start\<lparr>rpcBusyCount := 2\<rparr>) = Running" "\<not> rpcMutex (start\<lparr>rpcBusyCount := 2\<rparr>)"
    by (simp_all add: start_def)
  have a: "ShutdownBackend
     (Some (ErrOther ''read tcp 127.0.0.1:50000->127.0.0.1:29999: wsarecv: An existing connection was forcibly closed by the remote host.''))
     None start =
     (None, start\<lparr>rpcMutex := True, status := Returned,
        trace := [Lock, Wait, CallShutdown, ClientClose, Go ''waitForBackend'']\<rparr>)"
    using ShutdownBackend_spec [OF h(1,2), of
      "Some (ErrOther ''read tcp 127.0.0.1:50000->127.0.0.1:29999: wsarecv: An existing connection was forcibly closed by the remote host.'')"
      None]
    by (simp add: start_def)
  have b: "ShutdownBackend (Some (ErrOther ''unexpected EOF'')) (Some ErrShutdown) start =
     (None, start\<lparr>rpcMutex := True, status := Returned,
        trace := [Lock, Wait, CallShutdown, Log ''Failed to reload backend:'', ClientClose,
                  Log ''Failed to close RPC client:'', Go ''waitForBackend'']\<rparr>)"
    using ShutdownBackend_spec [OF h(1,2), of "Some (ErrOther ''unexpected EOF'')"
      "Some ErrShutdown"]
    by (simp add: start_def)
  have c: "ShutdownBackend None None (start\<lparr>rpcBusyCount := 2\<rparr>) =
     (None, start\<lparr>rpcMutex := True, rpcBusyCount := 2, status := Blocked OnWait,
        trace := [Lock]\<rparr>)"
    using ShutdownBackend_spec [OF h(3,4), of None None]
    by (simp add: start_def)
  from h a b c show ?thesis by blast
qed

subsection \<open>The relay goroutine\<close>



text \<open>
  Claim C5, as amended. Whatever the end of the goroutine, a failed \<^verbatim>\<open>NewConnection\<close> is
  never followed by a \<^verbatim>\<open>CloseConnection\<close> call. For a relay goroutine that returns,
  \<^verbatim>\<open>CloseConnection\<close> has been issued, once, exactly if \<^verbatim>\<open>NewConnection\<close> returned
  without error; if it failed, the entry is gone from the table and the last thing the
  goroutine did was to close the socket.
\<close>

theorem CloseConnection_issued:
  assumes "status s = Running"
  shows "(reply_new e \<noteq> None \<longrightarrow>
            calls ''RPCPacket.CloseConnection'' (trace (handleConnection server c index e s)) =
              calls ''RPCPacket.CloseConnection'' (trace s)) \<and>
         (status (handleConnection server c index e s) = Returned \<longrightarrow>
            calls ''RPCPacket.CloseConnection'' (trace (handleConnection server c index e s)) =
              calls ''RPCPacket.CloseConnection'' (trace s) @
                (if reply_new e = None
                 then [\<lparr>RPCPacket.Server = rpcName server, Index = index,
                        Address = RemoteAddr c, Data = []\<rparr>]
                 else []) \<and>
            (reply_new e \<noteq> None \<longrightarrow>
               lookup (rpcName server) index (handleConnection server c index e s) = None \<and>
               last (trace (handleConnection server c index e s)) = Close c))"
proof -
  define p where "p = \<lparr>RPCPacket.Server = rpcName server, Index = index,
             Address = RemoteAddr c, Data = []\<rparr>"
  define s0 where "s0 = serve (served_start e) s"
  define opn where "opn = rpcBusyCount_Done (rpcClient_Call ''RPCPacket.NewConnection'' p
              (served_new e) (rpcMutex_Unlock (connections_insert (rpcName server) index c
                (rpcBusyCount_Add (rpcMutex_Lock s0)))))"
  define f where "f = return (rpcMutex_Unlock (connections_delete (rpcName server) index
              (rpcMutex_Lock (logging ''Failed to forward new connection to backend:'' opn))))"
  define r where "r = relay server c index (rounds e) opn"
  define k where "k = rpcBusyCount_Done (rpcClient_Call ''RPCPacket.CloseConnection'' p
              (served_close e) (rpcMutex_Unlock (connections_delete (rpcName server) index
                (rpcBusyCount_Add (rpcMutex_Lock r)))))"
  define l where "l = return ((if reply_close e \<noteq> None then
              block [logging ''Failed to forward close connection to backend:'',
                     if reply_close e = Some ErrShutdown then os_Exit 1 else id]
            else id) k)"
  have fail: "reply_new e \<noteq> None \<Longrightarrow>
                handleConnection server c index e s = deferred (conn_Close c) f"
    by (simp add: handleConnection_def f_def opn_def s0_def p_def)
  have ok: "reply_new e = None \<Longrightarrow>
                handleConnection server c index e s = deferred (conn_Close c) l"
    by (simp add: handleConnection_def l_def k_def r_def opn_def s0_def p_def)
  have s0: "status s0 = Running" using assms by (simp add: s0_def)
  have opn_st: "status opn = Running \<or> status opn = Blocked OnLock \<or> status opn = Panicked"
    using s0 unfolding opn_def by (simp add: opening_status)
  have f_st: "status f =
     (if status opn = Running then (if rpcMutex opn then Blocked OnLock else Returned)
      else status opn)"
    unfolding f_def by (rule failing_status)
  have r_st: "status r = Returned \<Longrightarrow> False"
    using opn_st relay_status [of opn server c index "rounds e"]
      relay_halted [of opn server c index "rounds e"]
    unfolding r_def by auto
  have k_st: "status k = (if status r = Running \<and> rpcMutex r then Blocked OnLock else status r)"
    unfolding k_def by (rule closing_status)
  have l_st: "status l =
     (if status k = Running then (if reply_close e = Some ErrShutdown then Exited 1 else Returned)
      else status k)"
    unfolding l_def by (rule finishing_status)
  have opn_calls: "calls ''RPCPacket.CloseConnection'' (trace opn) =
                   calls ''RPCPacket.CloseConnection'' (trace s)"
    unfolding opn_def s0_def by (simp add: opening_calls)
  have f_calls: "calls ''RPCPacket.CloseConnection'' (trace f) =
                   calls ''RPCPacket.CloseConnection'' (trace s)"
    using opn_calls unfolding f_def by (simp add: calls_frame)
  have k_calls: "calls ''RPCPacket.CloseConnection'' (trace k) =
                   calls ''RPCPacket.CloseConnection'' (trace s) @
                     (if status r = Running \<and> \<not> rpcMutex r then [p] else [])"
    using opn_calls unfolding k_def r_def by (simp add: closing_calls relay_calls)
  have l_calls: "calls ''RPCPacket.CloseConnection'' (trace l) =
                   calls ''RPCPacket.CloseConnection'' (trace k)"
    unfolding l_def by (rule finishing_calls)
  have first: "reply_new e \<noteq> None \<longrightarrow>
            calls ''RPCPacket.CloseConnection'' (trace (handleConnection server c index e s)) =
              calls ''RPCPacket.CloseConnection'' (trace s)"
    using fail f_calls by (simp add: calls_frame)
  have second: "calls ''RPCPacket.CloseConnection'' (trace (handleConnection server c index e s)) =
              calls ''RPCPacket.CloseConnection'' (trace s) @
                (if reply_new e = None then [p] else []) \<and>
            (reply_new e \<noteq> None \<longrightarrow>
               lookup (rpcName server) index (handleConnection server c index e s) = None \<and>
               last (trace (handleConnection server c index e s)) = Close c)"
    if ret: "status (handleConnection server c index e s) = Returned"
  proof (cases "reply_new e = None")
    case False
    with ret fail have fr: "status f = Returned" by simp
    then have opn: "status opn = Running" "\<not> rpcMutex opn"
      using opn_st f_st by (auto split: if_splits)
    then have "lookup (rpcName server) index f = None"
      unfolding f_def by (rule failing_lookup)
    with False fail fr first show ?thesis
      by (simp add: deferred_Close_last)
  next
    case True
    with ret ok have lr: "status l = Returned" by simp
    then have "status k = Running"
      using l_st k_st r_st by (auto split: if_splits)
    then have "status r = Running" "\<not> rpcMutex r"
      using k_st by (auto split: if_splits)
    then have "calls ''RPCPacket.CloseConnection'' (trace l) =
            calls ''RPCPacket.CloseConnection'' (trace s) @ [p]"
      using k_calls l_calls by simp
    with True ok show ?thesis by (simp add: calls_frame)
  qed
  from first second show ?thesis unfolding p_def by blast
qed

text \<open>A failed \<^verbatim>\<open>NewConnection\<close>, and a connection that lives and ends with the stream.\<close>

theorem CloseConnection_issued_witness:
  "status listening = Running \<and>
   reply_new (quiet\<lparr>reply_new := Some ErrShutdown\<rparr>) \<noteq> None \<and>
   status (handleConnection gpcm client1 1 (quiet\<lparr>reply_new := Some ErrShutdown\<rparr>) listening)
     = Returned \<and>
   calls ''RPCPacket.CloseConnection''
     (trace (handleConnection gpcm client1 1 (quiet\<lparr>reply_new := Some ErrShutdown\<rparr>)
        listening)) = [] \<and>
   lookup ''gpcm'' 1
     (handleConnection gpcm client1 1 (quiet\<lparr>reply_new := Some ErrShutdown\<rparr>) listening)
     = None \<and>
   last (trace (handleConnection gpcm client1 1 (quiet\<lparr>reply_new := Some ErrShutdown\<rparr>)
           listening)) = Close client1 \<and>
   status (handleConnection gpcm client1 1
             (quiet\<lparr>rounds := [hello\<lparr>incoming := []\<rparr>, hello, eof]\<rparr>) listening) = Returned \<and>
   calls ''RPCPacket.CloseConnection''
     (trace (handleConnection gpcm client1 1
               (quiet\<lparr>rounds := [hello\<lparr>incoming := []\<rparr>, hello, eof]\<rparr>) listening)) =
     [\<lparr>RPCPacket.Server = ''gpcm'', Index = 1, Address = ''203.0.113.5:40000'', Data = []\<rparr>]"
proof -
  have h: "status listening = Running"
    by (simp add: listening_def start_def)
  have a: "reply_new (quiet\<lparr>reply_new := Some ErrShutdown\<rparr>) \<noteq> None"
    and b: "reply_new (quiet\<lparr>rounds := [hello\<lparr>incoming := []\<rparr>, hello, eof]\<rparr>) = None"
    by (simp_all add: quiet_def)
  have c: "status (handleConnection gpcm client1 1 (quiet\<lparr>reply_new := Some ErrShutdown\<rparr>)
             listening) = Returned"
    and d: "status (handleConnection gpcm client1 1
             (quiet\<lparr>rounds := [hello\<lparr>incoming := []\<rparr>, hello, eof]\<rparr>) listening) = Returned"
    by (simp_all add: run_shutdown_at_open run_hello)
  from CloseConnection_issued [OF h, of "quiet\<lparr>reply_new := Some ErrShutdown\<rparr>" gpcm client1 1]
    CloseConnection_issued [OF h, of "quiet\<lparr>rounds := [hello\<lparr>incoming := []\<rparr>, hello, eof]\<rparr>"
      gpcm client1 1] h a b c d
  show ?thesis
    by (simp add: listening_def start_def gpcm_def client1_def)
qed

text \<open>
  The claim as first stated (issued if and only if \<^verbatim>\<open>NewConnection\<close> succeeded) fails when
  a \<^verbatim>\<open>HandlePacket\<close> call returns \<open>ErrShutdown\<close>: \<^verbatim>\<open>NewConnection\<close> had succeeded, the
  process exits at line 377, and no \<^verbatim>\<open>CloseConnection\<close> is ever issued.
\<close>

theorem CloseConnection_not_issued_on_exit:
  "reply_new (quiet\<lparr>rounds := [hello\<lparr>reply := Some ErrShutdown\<rparr>]\<rparr>) = None \<and>
   status (handleConnection gpcm client1 1
      (quiet\<lparr>rounds := [hello\<lparr>reply := Some ErrShutdown\<rparr>]\<rparr>) listening) = Exited 1 \<and>
   calls ''RPCPacket.CloseConnection''
     (trace (handleConnection gpcm client1 1
        (quiet\<lparr>rounds := [hello\<lparr>reply := Some ErrShutdown\<rparr>]\<rparr>) listening)) = []"
proof -
  have "reply_new (quiet\<lparr>rounds := [hello\<lparr>reply := Some ErrShutdown\<rparr>]\<rparr>) = None"
    by (simp add: quiet_def)
  then show ?thesis
    by (simp add: run_shutdown_at_forward)
qed

text \<open>
  Claim C1. The claim asks that \<open>ErrShutdown\<close> from any of the three calls ends the
  process with a failure status. When \<^verbatim>\<open>NewConnection\<close> returns \<open>ErrShutdown\<close>, the code
  logs, removes the entry and returns (lines 345 to 352): the goroutine ends, the process
  does not.
\<close>

theorem NewConnection_ErrShutdown_no_exit:
  "status (handleConnection gpcm client1 1 (quiet\<lparr>reply_new := Some ErrShutdown\<rparr>) listening)
     = Returned \<and>
   Exit 1 \<notin> set (trace (handleConnection gpcm client1 1
                        (quiet\<lparr>reply_new := Some ErrShutdown\<rparr>) listening))"
  by (simp add: run_shutdown_at_open)

text \<open>
  The two other calls do end the process on \<open>ErrShutdown\<close> (lines 376 to 378 and 394 to
  396).
\<close>

lemma HandlePacket_ErrShutdown_exits:
  assumes "status s = Running" and "\<not> rpcMutex s"
    and "read_err rd = None" and "incoming rd \<noteq> []" and "reply rd = Some ErrShutdown"
  shows "status (relay server c index (rd # rds) s) = Exited 1"
  using assms
  by (simp add: relay_Cons Let_def forward_status logging_def os_Exit_def step_def stop_def
      emit_def del: relay.simps)

lemma run_shutdown_at_close:
  "handleConnection gpcm client1 1
     (quiet\<lparr>rounds := [eof], reply_close := Some ErrShutdown\<rparr>) listening =
     listening\<lparr>status := Exited 1,
       trace := [Lock, Add, Insert ''gpcm'' 1 client1, Unlock,
                 Call ''RPCPacket.NewConnection''
                   \<lparr>RPCPacket.Server = ''gpcm'', Index = 1,
                    Address = ''203.0.113.5:40000'', Data = []\<rparr>,
                 Done, Read client1 0,
                 Lock, Add, Delete ''gpcm'' 1, Unlock,
                 Call ''RPCPacket.CloseConnection''
                   \<lparr>RPCPacket.Server = ''gpcm'', Index = 1,
                    Address = ''203.0.113.5:40000'', Data = []\<rparr>,
                 Done, Log ''Failed to forward close connection to backend:'', Exit 1]\<rparr>"
  by (simp add: run_simps listening_def start_def quiet_def eof_def gpcm_def client1_def
      del: relay.simps)

subsection \<open>Listeners\<close>

lemma assigned_append [simp]: "assigned (xs @ ys) = assigned xs @ assigned ys"
  by (induction xs rule: assigned.induct) simp_all

lemma serve1_assigned [simp]: "assigned (trace (serve1 ic s)) = assigned (trace s)"
proof (cases "status s = Running \<and> \<not> rpcMutex s")
  case True
  then show ?thesis
    by (cases ic)
       (simp_all add: step_def stop_def SendPacket_run CloseConnection_run split: option.splits)
next
  case False
  then show ?thesis
    using serve1_halted serve1_locked by metis
qed

lemma serve_assigned [simp]: "assigned (trace (serve ics s)) = assigned (trace s)"
  unfolding serve_def by (induction ics arbitrary: s) simp_all

lemma accept_loop_assigned:
  "status s = Running \<Longrightarrow>
     assigned (trace (accept_loop server count accepts s)) =
       assigned (trace s) @ map (\<lambda>j. count + 1 + of_nat j) [0..<connected accepts]"
proof (induction server count accepts s rule: accept_loop.induct)
  case (1 server count s)
  then show ?case by (simp add: step_def stop_def)
next
  case (2 server count served rest s)
  then show ?case by (simp add: logging_def step_def emit_def)
next
  case (3 server count served c keepalive_err rest s)
  let ?s = "effect (GoHandleConnection server c (count + 1))
              (if protocol server = ''tcp'' \<and> keepalive_err \<noteq> None
               then logging ''Unable to set keepalive'' (serve served s) else serve served s)"
  have run: "status ?s = Running"
    using "3.prems" by (simp add: logging_def effect_def step_def emit_def)
  have tr: "assigned (trace ?s) = assigned (trace s) @ [count + 1]"
    using "3.prems" by (simp add: logging_def effect_def step_def emit_def)
  have unfold: "accept_loop server count (Accepted served c keepalive_err # rest) s =
          accept_loop server (count + 1) rest ?s"
    by (simp add: Let_def)
  have ih: "assigned (trace (accept_loop server (count + 1) rest ?s)) =
          assigned (trace ?s) @ map (\<lambda>j. count + 1 + 1 + of_nat j) [0..<connected rest]"
    using "3.IH" [OF refl refl refl run] by simp
  have "[0..<Suc (connected rest)] = 0 # map Suc [0..<connected rest]"
    by (simp only: map_Suc_upt upt_conv_Cons [of 0 "Suc (connected rest)"] zero_less_Suc)
  then have "map (\<lambda>j. count + 1 + of_nat j) [0..<Suc (connected rest)] =
          (count + 1) # map (\<lambda>j. count + 1 + 1 + of_nat j) [0..<connected rest]"
    by (simp add: comp_def add.assoc del: upt_Suc)
  with unfold ih tr show ?case by simp
qed

lemma frontendListen_assigned:
  assumes "status s = Running"
  shows "assigned (trace (frontendListen GameSpyAddress server None accepts s)) =
           assigned (trace s) @ map of_nat [1..<Suc (connected accepts)]"
proof -
  have "map (\<lambda>j. (0 :: uint64) + 1 + of_nat j) [0..<connected accepts] =
          map of_nat (map Suc [0..<connected accepts])"
    by (simp add: comp_def add.commute)
  also have "\<dots> = map of_nat [1..<Suc (connected accepts)]"
    by (simp only: map_Suc_upt One_nat_def)
  finally have "map (\<lambda>j. (0 :: uint64) + 1 + of_nat j) [0..<connected accepts] =
          map of_nat [1..<Suc (connected accepts)]" .
  moreover have "assigned (trace (frontendListen GameSpyAddress server None accepts s)) =
          assigned (trace s) @ map (\<lambda>j. 0 + 1 + of_nat j) [0..<connected accepts]"
    using assms
    by (simp add: frontendListen_def accept_loop_assigned logging_def effect_def step_def
        emit_def del: upt_Suc)
  ultimately show ?thesis by simp
qed

lemma increasing_below_wrap:
  "n < 2 ^ 64 \<Longrightarrow> sorted_wrt (<) (map of_nat [1..<Suc n] :: uint64 list)"
proof -
  assume n: "n < 2 ^ 64"
  have "\<And>i j. i < j \<Longrightarrow> j < Suc n \<Longrightarrow> (of_nat i :: uint64) < of_nat j"
  proof -
    fix i j :: nat
    assume "i < j" and "j < Suc n"
    with n have "i < 2 ^ 64" and "j < 2 ^ 64" by auto
    then have "unat (of_nat i :: uint64) = i" and "unat (of_nat j :: uint64) = j"
      by (simp_all add: unat_of_nat)
    with \<open>i < j\<close> show "(of_nat i :: uint64) < of_nat j"
      by (simp add: word_less_nat_alt)
  qed
  then have "\<And>i j. i < j \<Longrightarrow> j < n \<Longrightarrow> (1 + of_nat i :: uint64) < 1 + of_nat j"
  proof -
    fix i j :: nat
    assume step: "\<And>i j. i < j \<Longrightarrow> j < Suc n \<Longrightarrow> (of_nat i :: uint64) < of_nat j"
      and "i < j" and "j < n"
    then show "(1 + of_nat i :: uint64) < 1 + of_nat j"
      using step [of "Suc i" "Suc j"] by simp
  qed
  then show ?thesis
    by (simp add: sorted_wrt_map sorted_wrt_iff_nth_less del: upt_Suc)
qed

lemma connected_replicate [simp]: "connected (replicate n (Accepted served c k)) = n"
  by (induction n) simp_all

lemma wraps_at_2p64:
  assumes "2 ^ 64 \<le> n"
  shows "\<not> sorted_wrt (<) (map of_nat [1..<Suc n] :: uint64 list)"
proof
  define N :: nat where "N = 2 ^ 64 - 1"
  assume "sorted_wrt (<) (map of_nat [1..<Suc n] :: uint64 list)"
  moreover have "N - 1 < N" and "N < length (map of_nat [1..<Suc n] :: uint64 list)"
    using assms by (simp_all add: N_def)
  ultimately have "(map of_nat [1..<Suc n] :: uint64 list) ! (N - 1)
                     < (map of_nat [1..<Suc n] :: uint64 list) ! N"
    unfolding sorted_wrt_iff_nth_less by blast
  moreover have "(map of_nat [1..<Suc n] :: uint64 list) ! N = of_nat (1 + N)"
    using assms by (simp add: N_def del: upt_Suc of_nat_add of_nat_Suc)
  moreover have "(of_nat (1 + N) :: uint64) = 0"
    by (simp add: N_def word_of_nat_eq_0_iff del: of_nat_add of_nat_Suc)
  ultimately show False by simp
qed

lemma frontendListen_wraps:
  assumes "status s = Running" and "assigned (trace s) = []" and "2 ^ 64 \<le> n"
  shows "\<not> sorted_wrt (<)
           (assigned (trace (frontendListen GameSpyAddress server None
                               (replicate n (Accepted served c k)) s)))"
  using assms wraps_at_2p64 [of n]
  by (simp add: frontendListen_assigned del: upt_Suc)

text \<open>
  Claim C8, as amended. While fewer than \<open>2 ^ 64\<close> connections have been accepted on a
  listener, the indices it hands to the relay goroutines are 1, 2, 3, ... in the order of
  the accepts: strictly increasing and never repeated. They depend on nothing but the
  number of accepts so far; the table, and the calls served meanwhile that remove
  entries from it, play no part.
\<close>

theorem indices_increase:
  assumes "status s = Running" and "connected accepts < 2 ^ 64"
  shows "assigned (trace (frontendListen GameSpyAddress server None accepts s)) =
           assigned (trace s) @ map of_nat [1..<Suc (connected accepts)] \<and>
         sorted_wrt (<) (map of_nat [1..<Suc (connected accepts)] :: uint64 list) \<and>
         distinct (map of_nat [1..<Suc (connected accepts)] :: uint64 list)"
  using assms frontendListen_assigned [OF assms(1)] increasing_below_wrap [OF assms(2)]
    strict_sorted_iff [of "map of_nat [1..<Suc (connected accepts)] :: uint64 list"]
  by blast

text \<open>
  Two connections with a failed accept between them; before the second, the back has had
  the entry of index 1 removed.
\<close>

theorem indices_increase_witness:
  "status one_client = Running \<and>
   connected [Accepted [] client2 None,
              AcceptError [],
              Accepted [CallCloseConnection
                          \<lparr>RPCFrontendPacket.Server = ''gpcm'', Index = 1, Data = []\<rparr> None]
                client1 (Some (ErrOther ''keepalive''))] < 2 ^ 64 \<and>
   assigned (trace (frontendListen ''0.0.0.0'' gpcm None
      [Accepted [] client2 None,
       AcceptError [],
       Accepted [CallCloseConnection
                   \<lparr>RPCFrontendPacket.Server = ''gpcm'', Index = 1, Data = []\<rparr> None]
         client1 (Some (ErrOther ''keepalive''))] one_client)) = [1, 2]"
proof -
  let ?accepts = "[Accepted [] client2 None,
       AcceptError [],
       Accepted [CallCloseConnection
                   \<lparr>RPCFrontendPacket.Server = ''gpcm'', Index = 1, Data = []\<rparr> None]
         client1 (Some (ErrOther ''keepalive''))]"
  have h: "status one_client = Running" "connected ?accepts < 2 ^ 64"
    by (simp_all add: one_client_def start_def)
  have "map of_nat [1..<Suc (connected ?accepts)] = [1, 2 :: uint64]"
    by (simp add: upt_rec)
  with h indices_increase [OF h, of "''0.0.0.0''" gpcm] show ?thesis
    by (simp add: one_client_def start_def)
qed

text \<open>
  The claim as first stated has no bound. The counter is a \<^verbatim>\<open>uint64\<close> incremented without
  a check (line 326, and the comment of line 309): the connection number \<open>2 ^ 64\<close> gets
  index 0, after index \<open>2 ^ 64 - 1\<close>.
\<close>

theorem indices_wrap:
  "\<not> sorted_wrt (<)
       (assigned (trace (frontendListen ''0.0.0.0'' gpcm None
                           (replicate (2 ^ 64) (Accepted [] client1 None)) listening)))"
  by (rule frontendListen_wraps) (simp_all add: listening_def start_def)

text \<open>
  Claim C2. The claim asks that a failure to bind any listener ends the process with a
  failure status. For a client-facing listener the code logs and returns (lines 301 to
  305): the accept goroutine ends and the process goes on without that port.
\<close>

theorem frontendListen_bind_failure:
  "frontendListen GameSpyAddress server (Some err) accepts start =
     start\<lparr>status := Returned,
       trace := [Listen (protocol server) GameSpyAddress (port server),
                 Log ''Failed to listen on'']\<rparr>"
  by (simp add: frontendListen_def start_def prim_defs)

text \<open>
  The two RPC listeners do end the process when they cannot bind (lines 64 to 68 and 233
  to 237).
\<close>

lemma startFrontendServer_bind_failure:
  "startFrontendServer (Some err) start =
     start\<lparr>status := Exited 1,
       trace := [Register ''RPCFrontendPacket'', Listen ''tcp'' ''localhost'' 29998,
                 Log ''Failed to listen on'', Exit 1]\<rparr>"
  by (simp add: startFrontendServer_def start_def prim_defs)

lemma backendMain_bind_failure:
  "backendMain reload None (Some err) start =
     start\<lparr>status := Exited 1,
       trace := [Register ''RPCPacket'', Listen ''tcp'' ''localhost'' 29999,
                 Log ''Failed to listen on'', Exit 1]\<rparr>"
  by (simp add: backendMain_def start_def prim_defs)

subsection \<open>Closing the socket\<close>

lemma holders_cong:
  "connections s' = connections s \<Longrightarrow> holders c s' = holders c s"
  by (simp add: holders_def lookup_def)

lemma serve1_keeps:
  assumes "holders c s \<subseteq> {(tag, i)}" and "\<not> closes_entry tag i ic"
  shows "holders c (serve1 ic s) \<subseteq> {(tag, i)} \<and>
         count_list (trace (serve1 ic s)) (Close c) = count_list (trace s) (Close c)"
proof (cases "status s = Running \<and> \<not> rpcMutex s")
  case False
  then have "serve1 ic s = s"
    using serve1_halted serve1_locked by metis
  with assms show ?thesis by simp
next
  case True
  show ?thesis
  proof (cases ic)
    case (CallSendPacket args write_err)
    with True assms show ?thesis
      by (auto simp add: step_def stop_def SendPacket_run holders_def lookup_def
          split: option.splits)
  next
    case (CallCloseConnection args close_err)
    show ?thesis
    proof (cases "lookup (RPCFrontendPacket.Server args) (RPCFrontendPacket.Index args) s")
      case None
      with True assms CallCloseConnection show ?thesis
        by (auto simp add: step_def stop_def CloseConnection_run holders_def lookup_def
            split: option.splits)
    next
      case (Some c')
      from assms CallCloseConnection
      have "(RPCFrontendPacket.Server args, RPCFrontendPacket.Index args) \<noteq> (tag, i)"
        by auto
      with assms(1) Some have ne: "c' \<noteq> c"
        by (auto simp add: holders_def)
      have sub: "holders c (serve1 ic s) \<subseteq> holders c s"
        using True Some CallCloseConnection
        by (auto simp add: step_def stop_def CloseConnection_run holders_def lookup_def
            split: option.splits if_splits)
      have "count_list (trace (serve1 ic s)) (Close c) = count_list (trace s) (Close c)"
        using True Some CallCloseConnection ne
        by (simp add: step_def stop_def CloseConnection_run)
      with sub assms(1) show ?thesis by blast
    qed
  qed
qed

lemma serve_keeps:
  assumes "holders c s \<subseteq> {(tag, i)}" and "\<forall>ic \<in> set ics. \<not> closes_entry tag i ic"
  shows "holders c (serve ics s) \<subseteq> {(tag, i)} \<and>
         count_list (trace (serve ics s)) (Close c) = count_list (trace s) (Close c)"
  using assms unfolding serve_def
proof (induction ics arbitrary: s)
  case Nil
  then show ?case by simp
next
  case (Cons ic ics)
  from Cons.prems serve1_keeps [of c s tag i ic]
  have one: "holders c (serve1 ic s) \<subseteq> {(tag, i)}"
    "count_list (trace (serve1 ic s)) (Close c) = count_list (trace s) (Close c)"
    by auto
  from Cons.IH [OF one(1)] Cons.prems(2) one(2) show ?case by simp
qed

lemma serve1_absent:
  assumes "holders c s = {}"
  shows "holders c (serve1 ic s) = {} \<and>
         count_list (trace (serve1 ic s)) (Close c) = count_list (trace s) (Close c)"
proof -
  obtain i :: uint64 where i: "\<not> closes_entry [] (i + 1) ic" "\<not> closes_entry [] (i + 2) ic"
  proof (cases ic)
    case (CallSendPacket args write_err)
    with that [of 0] show ?thesis by simp
  next
    case (CallCloseConnection args close_err)
    with that [of "RPCFrontendPacket.Index args"] show ?thesis by simp
  qed
  from assms have "holders c s \<subseteq> {([], i + 1)}" "holders c s \<subseteq> {([], i + 2)}"
    by simp_all
  from serve1_keeps [OF this(1) i(1)] serve1_keeps [OF this(2) i(2)]
  show ?thesis by auto
qed

lemma serve_absent:
  assumes "holders c s = {}"
  shows "holders c (serve ics s) = {} \<and>
         count_list (trace (serve ics s)) (Close c) = count_list (trace s) (Close c)"
  using assms unfolding serve_def
proof (induction ics arbitrary: s)
  case Nil
  then show ?case by simp
next
  case (Cons ic ics)
  from Cons.prems serve1_absent [of c s ic]
  have one: "holders c (serve1 ic s) = {}"
    "count_list (trace (serve1 ic s)) (Close c) = count_list (trace s) (Close c)"
    by auto
  from Cons.IH [OF one(1)] one(2) show ?case by simp
qed

lemma closes_frame:
  "count_list (trace (rpcMutex_Lock s)) (Close c) = count_list (trace s) (Close c)"
  "count_list (trace (rpcMutex_Unlock s)) (Close c) = count_list (trace s) (Close c)"
  "count_list (trace (rpcBusyCount_Add s)) (Close c) = count_list (trace s) (Close c)"
  "count_list (trace (rpcBusyCount_Done s)) (Close c) = count_list (trace s) (Close c)"
  "count_list (trace (connections_insert tag i c' s)) (Close c) = count_list (trace s) (Close c)"
  "count_list (trace (connections_delete tag i s)) (Close c) = count_list (trace s) (Close c)"
  "count_list (trace (logging msg s)) (Close c) = count_list (trace s) (Close c)"
  "count_list (trace (os_Exit code s)) (Close c) = count_list (trace s) (Close c)"
  "count_list (trace (return s)) (Close c) = count_list (trace s) (Close c)"
  "count_list (trace (step (emit (Call m p)) s)) (Close c) = count_list (trace s) (Close c)"
  "count_list (trace (step (emit (Read c' n)) s)) (Close c) = count_list (trace s) (Close c)"
  by (simp_all add: prim_defs split: nat.splits option.splits)

lemma holders_frame:
  "holders c (rpcMutex_Lock s) = holders c s"
  "holders c (rpcMutex_Unlock s) = holders c s"
  "holders c (rpcBusyCount_Add s) = holders c s"
  "holders c (rpcBusyCount_Done s) = holders c s"
  "holders c (logging msg s) = holders c s"
  "holders c (os_Exit code s) = holders c s"
  "holders c (return s) = holders c s"
  "holders c (step (emit a) s) = holders c s"
  by (simp_all add: holders_def lookup_def prim_defs split: nat.splits option.splits)

lemma insert_holders:
  "holders c (connections_insert tag i c' s) \<subseteq> holders c s \<union> {(tag, i)}"
  by (auto simp add: holders_def lookup_def prim_defs split: option.splits if_splits)

lemma delete_holders:
  "holders c (connections_delete tag i s) \<subseteq> holders c s"
  by (auto simp add: holders_def lookup_def prim_defs split: option.splits if_splits)

lemma delete_removes:
  "status s = Running \<Longrightarrow> (tag, i) \<notin> holders c (connections_delete tag i s)"
  by (auto simp add: holders_def lookup_def prim_defs split: option.splits if_splits)

lemma conn_Read_keeps:
  assumes "holders c s \<subseteq> {(tag, i)}" and "\<forall>ic \<in> set (served_read rd). \<not> closes_entry tag i ic"
  shows "holders c (conn_Read c' buffer rd s) \<subseteq> {(tag, i)} \<and>
         count_list (trace (conn_Read c' buffer rd s)) (Close c) = count_list (trace s) (Close c)"
  using serve_keeps [OF assms]
  by (simp add: conn_Read_def holders_frame closes_frame)

lemma rpcClient_Call_keeps:
  assumes "holders c s \<subseteq> {(tag, i)}" and "\<forall>ic \<in> set served. \<not> closes_entry tag i ic"
  shows "holders c (rpcClient_Call m p served s) \<subseteq> {(tag, i)} \<and>
         count_list (trace (rpcClient_Call m p served s)) (Close c) =
           count_list (trace s) (Close c)"
proof -
  have "holders c (step (emit (Call m p)) s) \<subseteq> {(tag, i)}"
    using assms(1) by (simp add: holders_frame)
  from serve_keeps [OF this assms(2)] show ?thesis
    by (simp add: rpcClient_Call_def closes_frame)
qed

lemma forward_keeps:
  assumes "holders c s \<subseteq> {(tag, i)}" and "\<forall>ic \<in> set served. \<not> closes_entry tag i ic"
  shows "holders c (rpcBusyCount_Done (rpcClient_Call m p served
            (rpcMutex_Unlock (rpcBusyCount_Add (rpcMutex_Lock s))))) \<subseteq> {(tag, i)} \<and>
         count_list (trace (rpcBusyCount_Done (rpcClient_Call m p served
            (rpcMutex_Unlock (rpcBusyCount_Add (rpcMutex_Lock s)))))) (Close c) =
           count_list (trace s) (Close c)"
proof -
  have "holders c (rpcMutex_Unlock (rpcBusyCount_Add (rpcMutex_Lock s))) \<subseteq> {(tag, i)}"
    using assms(1) by (simp add: holders_frame)
  from rpcClient_Call_keeps [OF this assms(2)] show ?thesis
    by (simp add: holders_frame closes_frame)
qed

lemma relay_keeps:
  assumes "holders c s \<subseteq> {(tag, i)}"
    and "\<forall>rd \<in> set rds. \<forall>ic \<in> set (served_read rd @ served_call rd). \<not> closes_entry tag i ic"
  shows "holders c (relay server c' index rds s) \<subseteq> {(tag, i)} \<and>
         count_list (trace (relay server c' index rds s)) (Close c) =
           count_list (trace s) (Close c)"
  using assms
proof (induction rds arbitrary: s)
  case Nil
  then show ?case by (simp add: holders_def lookup_def step_def stop_def)
next
  case (Cons rd rds)
  let ?s1 = "conn_Read c' (replicate 1024 0) rd s"
  let ?s2 = "rpcBusyCount_Done (rpcClient_Call ''RPCPacket.HandlePacket''
               \<lparr>RPCPacket.Server = rpcName server, Index = index,
                Address = RemoteAddr c', Data = take 1024 (incoming rd)\<rparr> (served_call rd)
               (rpcMutex_Unlock (rpcBusyCount_Add (rpcMutex_Lock ?s1))))"
  from Cons.prems have rd: "\<forall>ic \<in> set (served_read rd). \<not> closes_entry tag i ic"
    "\<forall>ic \<in> set (served_call rd). \<not> closes_entry tag i ic"
    and rest: "\<forall>rd \<in> set rds. \<forall>ic \<in> set (served_read rd @ served_call rd).
                 \<not> closes_entry tag i ic"
    by auto
  from conn_Read_keeps [OF Cons.prems(1) rd(1)]
  have s1: "holders c ?s1 \<subseteq> {(tag, i)}"
    "count_list (trace ?s1) (Close c) = count_list (trace s) (Close c)"
    by auto
  from forward_keeps [OF s1(1) rd(2)] s1(2)
  have s2: "holders c ?s2 \<subseteq> {(tag, i)}"
    "count_list (trace ?s2) (Close c) = count_list (trace s) (Close c)"
    by auto
  from Cons.IH [OF s1(1) rest] Cons.IH [OF s2(1) rest] s1 s2
  show ?case
    by (simp add: relay_Cons Let_def holders_frame closes_frame del: relay.simps)
qed

lemma closing_keeps:
  assumes "holders c s \<subseteq> {(tag, i)}"
  shows "count_list (trace (rpcBusyCount_Done (rpcClient_Call m p served
            (rpcMutex_Unlock (connections_delete tag i
              (rpcBusyCount_Add (rpcMutex_Lock s))))))) (Close c) =
           count_list (trace s) (Close c)"
proof -
  let ?d = "connections_delete tag i (rpcBusyCount_Add (rpcMutex_Lock s))"
  let ?b = "rpcMutex_Unlock ?d"
  have cnt: "count_list (trace ?b) (Close c) = count_list (trace s) (Close c)"
    by (simp add: closes_frame)
  show ?thesis
  proof (cases "status ?b = Running")
    case False
    then have "rpcClient_Call m p served ?b = ?b"
      by (simp add: rpcClient_Call_def serve_halted step_def)
    with cnt show ?thesis by (simp add: closes_frame)
  next
    case True
    then have "status (rpcBusyCount_Add (rpcMutex_Lock s)) = Running"
      by (auto simp add: prim_defs split: if_splits option.splits)
    from delete_removes [OF this, of tag i c]
      delete_holders [of c tag i "rpcBusyCount_Add (rpcMutex_Lock s)"] assms
    have "holders c ?d = {}"
      by (auto simp add: holders_frame)
    then have "holders c (step (emit (Call m p)) ?b) = {}"
      by (simp add: holders_frame)
    from serve_absent [OF this, of served] cnt show ?thesis
      by (simp add: rpcClient_Call_def closes_frame)
  qed
qed

lemma deferred_Close_count:
  "count_list (trace (deferred (conn_Close c) s)) (Close c) =
     count_list (trace s) (Close c) +
       (if status s = Returned \<or> status s = Panicked then 1 else 0)"
  by (simp add: prim_defs)

text \<open>
  Claim C3, as amended. Take a socket that no entry of the table holds when its relay
  goroutine starts, and suppose the back asks for no \<^verbatim>\<open>CloseConnection\<close> of the socket's
  entry from the moment the entry is in the table to the end of the read loop. Then the
  socket's \<^verbatim>\<open>Close\<close> is invoked exactly once if the goroutine returns (the read loop ended,
  or \<^verbatim>\<open>NewConnection\<close> failed) or panics, by the deferred call of line 334, and not at all
  if the goroutine ends the process or has not ended.
\<close>

theorem Close_once:
  assumes "holders c s = {}"
    and "\<forall>ic \<in> set (served_while_open e). \<not> closes_entry (rpcName server) index ic"
  shows "count_list (trace (handleConnection server c index e s)) (Close c) =
           count_list (trace s) (Close c) +
             (if status (handleConnection server c index e s) = Returned \<or>
                 status (handleConnection server c index e s) = Panicked
              then 1 else 0)"
proof -
  define p where "p = \<lparr>RPCPacket.Server = rpcName server, Index = index,
             Address = RemoteAddr c, Data = []\<rparr>"
  define s0 where "s0 = serve (served_start e) s"
  define a where "a = rpcMutex_Unlock (connections_insert (rpcName server) index c
                        (rpcBusyCount_Add (rpcMutex_Lock s0)))"
  define opn where "opn = rpcBusyCount_Done (rpcClient_Call ''RPCPacket.NewConnection'' p
              (served_new e) a)"
  define f where "f = return (rpcMutex_Unlock (connections_delete (rpcName server) index
              (rpcMutex_Lock (logging ''Failed to forward new connection to backend:'' opn))))"
  define r where "r = relay server c index (rounds e) opn"
  define k where "k = rpcBusyCount_Done (rpcClient_Call ''RPCPacket.CloseConnection'' p
              (served_close e) (rpcMutex_Unlock (connections_delete (rpcName server) index
                (rpcBusyCount_Add (rpcMutex_Lock r)))))"
  define l where "l = return ((if reply_close e \<noteq> None then
              block [logging ''Failed to forward close connection to backend:'',
                     if reply_close e = Some ErrShutdown then os_Exit 1 else id]
            else id) k)"
  have fail: "reply_new e \<noteq> None \<Longrightarrow>
                handleConnection server c index e s = deferred (conn_Close c) f"
    by (simp add: handleConnection_def f_def opn_def a_def s0_def p_def)
  have ok: "reply_new e = None \<Longrightarrow>
                handleConnection server c index e s = deferred (conn_Close c) l"
    by (simp add: handleConnection_def l_def k_def r_def opn_def a_def s0_def p_def)
  from assms(2) have new: "\<forall>ic \<in> set (served_new e). \<not> closes_entry (rpcName server) index ic"
    and rds: "\<forall>rd \<in> set (rounds e). \<forall>ic \<in> set (served_read rd @ served_call rd).
                \<not> closes_entry (rpcName server) index ic"
    by (auto simp add: served_while_open_def)
  from serve_absent [OF assms(1), of "served_start e"]
  have s0: "holders c s0 = {}" "count_list (trace s0) (Close c) = count_list (trace s) (Close c)"
    by (simp_all add: s0_def)
  have a: "holders c a \<subseteq> {(rpcName server, index)}"
    "count_list (trace a) (Close c) = count_list (trace s) (Close c)"
    using s0 insert_holders [of c "rpcName server" index c "rpcBusyCount_Add (rpcMutex_Lock s0)"]
    by (simp_all add: a_def holders_frame closes_frame)
  from rpcClient_Call_keeps [OF a(1) new, of "''RPCPacket.NewConnection''" p] a(2)
  have opn: "holders c opn \<subseteq> {(rpcName server, index)}"
    "count_list (trace opn) (Close c) = count_list (trace s) (Close c)"
    by (simp_all add: opn_def holders_frame closes_frame)
  have f: "count_list (trace f) (Close c) = count_list (trace s) (Close c)"
    using opn(2) by (simp add: f_def closes_frame)
  from relay_keeps [OF opn(1) rds, of server c index] opn(2)
  have r: "holders c r \<subseteq> {(rpcName server, index)}"
    "count_list (trace r) (Close c) = count_list (trace s) (Close c)"
    by (simp_all add: r_def)
  from closing_keeps [OF r(1), of "''RPCPacket.CloseConnection''" p "served_close e"] r(2)
  have k: "count_list (trace k) (Close c) = count_list (trace s) (Close c)"
    by (simp add: k_def)
  have l: "count_list (trace l) (Close c) = count_list (trace s) (Close c)"
    using k by (simp add: l_def closes_frame)
  show ?thesis
  proof (cases "reply_new e = None")
    case True
    with ok l show ?thesis by (simp add: deferred_Close_count)
  next
    case False
    with fail f show ?thesis by (simp add: deferred_Close_count)
  qed
qed

text \<open>A connection that lives and ends with the stream is closed once.\<close>

theorem Close_once_witness:
  "holders client1 listening = {} \<and>
   filter (closes_entry (rpcName gpcm) 1)
     (served_while_open (quiet\<lparr>rounds := [hello\<lparr>incoming := []\<rparr>, hello, eof]\<rparr>)) = [] \<and>
   status (handleConnection gpcm client1 1
     (quiet\<lparr>rounds := [hello\<lparr>incoming := []\<rparr>, hello, eof]\<rparr>) listening) = Returned \<and>
   count_list (trace (handleConnection gpcm client1 1
     (quiet\<lparr>rounds := [hello\<lparr>incoming := []\<rparr>, hello, eof]\<rparr>) listening)) (Close client1) = 1"
proof -
  let ?e = "quiet\<lparr>rounds := [hello\<lparr>incoming := []\<rparr>, hello, eof]\<rparr>"
  have h1: "holders client1 listening = {}"
    by (auto simp add: holders_def lookup_def listening_def start_def split: if_splits)
  have h2: "\<forall>ic \<in> set (served_while_open ?e). \<not> closes_entry (rpcName gpcm) 1 ic"
    by (simp add: served_while_open_def quiet_def hello_def eof_def)
  have st: "status (handleConnection gpcm client1 1 ?e listening) = Returned"
    by (simp add: run_hello)
  have "count_list (trace listening) (Close client1) = 0"
    by (simp add: listening_def start_def)
  moreover have "filter (closes_entry (rpcName gpcm) 1) (served_while_open ?e) = []"
    using h2 by (simp add: filter_empty_conv)
  ultimately show ?thesis
    using Close_once [OF h1 h2] st h1 by simp
qed

text \<open>
  The claim as first stated counts one \<^verbatim>\<open>Close\<close> also when the back asks for the removal.
  In that case \<^verbatim>\<open>RPCFrontendPacket.CloseConnection\<close> closes the socket (line 427), the
  read of the relay goroutine fails, and the deferred call closes the socket again.
\<close>

theorem Close_twice:
  "Insert ''gpcm'' 1 client1
     \<in> set (trace (handleConnection gpcm client1 1 (quiet\<lparr>rounds := [closed_by_back]\<rparr>)
                     listening)) \<and>
   count_list (trace (handleConnection gpcm client1 1 (quiet\<lparr>rounds := [closed_by_back]\<rparr>)
                        listening)) (Close client1) = 2"
  by (simp add: run_closed_by_back)

subsection \<open>The outer keys of the table\<close>

text \<open>
  \<open>known_tags\<close> is an invariant of the front: \<^verbatim>\<open>frontendMain\<close> establishes it, and neither
  the relay goroutines nor the calls served to the back add an outer key.
\<close>

lemma dom_frame:
  "dom (connections (rpcMutex_Lock s)) = dom (connections s)"
  "dom (connections (rpcMutex_Unlock s)) = dom (connections s)"
  "dom (connections (rpcBusyCount_Add s)) = dom (connections s)"
  "dom (connections (rpcBusyCount_Done s)) = dom (connections s)"
  "dom (connections (connections_insert tag i c s)) = dom (connections s)"
  "dom (connections (connections_delete tag i s)) = dom (connections s)"
  "dom (connections (logging msg s)) = dom (connections s)"
  "dom (connections (os_Exit code s)) = dom (connections s)"
  "dom (connections (return s)) = dom (connections s)"
  "dom (connections (deferred (conn_Close c) s)) = dom (connections s)"
  "dom (connections (rpcClient_Call m p served s)) = dom (connections s)"
  by (auto simp add: rpcClient_Call_def prim_defs split: nat.splits option.splits)

lemma handleConnection_known_tags:
  "known_tags s \<Longrightarrow> known_tags (handleConnection server c index e s)"
  by (simp add: known_tags_def handleConnection_def dom_frame del: set_map)

lemma serve_known_tags: "known_tags s \<Longrightarrow> known_tags (serve ics s)"
  by (simp add: known_tags_def del: set_map)

lemma frontendMain_known_tags: "known_tags (frontendMain skipBackend output_err listen_err start)"
  unfolding known_tags_def by (rule frontendMain_dom)

end
